theory Spec2Isabelle
  imports Main "HOL-Library.Word"
begin

unbundle bit_operations_syntax

section \<open>Errors\<close>

text \<open>
  Go's \<open>error\<close> values, as far as the adapter can observe them. A nil error is
  \<open>None\<close> of \<open>error option\<close>.
  \<^item> \<open>CephError nf txt\<close> is an error value made by the remote client: \<open>nf\<close> says
    whether \<open>errors.Is(e, gocephfs.ErrNotExist)\<close> holds for it, \<open>txt\<close> is what its
    \<open>Error()\<close> method prints (the client prints its return codes as \<open>ret=-17\<close>).
  \<^item> \<open>OsErrNotExist\<close>, \<open>OsErrExist\<close>, \<open>IoEOF\<close> are \<open>os.ErrNotExist\<close>,
    \<open>os.ErrExist\<close> and \<open>io.EOF\<close>.
  \<^item> \<open>ErrDirDoesntSupport\<close>, \<open>ErrFileNil\<close>, \<open>ErrDirNil\<close> are the package's own
    error variables; \<open>ErrorsNew txt\<close> is any other \<open>errors.New(txt)\<close>.
  \<^item> \<open>Errorf pre e\<close> is \<open>fmt.Errorf(pre + "%w", e)\<close>, which wraps \<open>e\<close>;
    \<open>Errorf2 pre e1 sep e2\<close> is \<open>fmt.Errorf(pre + "%w" + sep + "%w", e1, e2)\<close>.
\<close>

datatype error =
    CephError bool string
  | OsErrNotExist
  | OsErrExist
  | IoEOF
  | ErrDirDoesntSupport
  | ErrFileNil
  | ErrDirNil
  | ErrorsNew string
  | Errorf string error
  | Errorf2 string error string error

text \<open>The \<open>Error()\<close> method: the text of an error.\<close>

fun Error :: "error \<Rightarrow> string" where
  "Error (CephError nf txt) = txt"
| "Error OsErrNotExist = ''file does not exist''"
| "Error OsErrExist = ''file already exists''"
| "Error IoEOF = ''EOF''"
| "Error ErrDirDoesntSupport = ''type of Dir does not support this operation''"
| "Error ErrFileNil = ''cephfs file is nil, is this a directory?''"
| "Error ErrDirNil = ''cephfs dir is nil, is this a file?''"
| "Error (ErrorsNew txt) = txt"
| "Error (Errorf pre e) = pre @ Error e"
| "Error (Errorf2 pre e1 sep e2) = pre @ Error e1 @ sep @ Error e2"

text \<open>
  \<open>errors.Is(e, gocephfs.ErrNotExist)\<close>: the chain of wrapped errors is searched
  depth first; the errors of the standard library and of this package are not the
  remote client's.
\<close>

fun Is_ceph_ErrNotExist :: "error \<Rightarrow> bool" where
  "Is_ceph_ErrNotExist (CephError nf txt) = nf"
| "Is_ceph_ErrNotExist (Errorf pre e) = Is_ceph_ErrNotExist e"
| "Is_ceph_ErrNotExist (Errorf2 pre e1 sep e2) =
     (Is_ceph_ErrNotExist e1 \<or> Is_ceph_ErrNotExist e2)"
| "Is_ceph_ErrNotExist e = False"

text \<open>
  \<open>os.IsNotExist(e)\<close> looks through \<open>*PathError\<close>, \<open>*LinkError\<close> and
  \<open>*SyscallError\<close> only (not through \<open>fmt.Errorf\<close> wrappers) and then accepts
  \<open>os.ErrNotExist\<close> itself or a \<open>syscall.Errno\<close>; none of the errors above but
  \<open>os.ErrNotExist\<close> is one of those.
\<close>

fun os_IsNotExist :: "error \<Rightarrow> bool" where
  "os_IsNotExist OsErrNotExist = True"
| "os_IsNotExist e = False"

text \<open>The errors an error wraps, itself included (what \<open>errors.Is\<close> walks over).\<close>

fun chain :: "error \<Rightarrow> error list" where
  "chain (Errorf pre e) = Errorf pre e # chain e"
| "chain (Errorf2 pre e1 sep e2) = Errorf2 pre e1 sep e2 # chain e1 @ chain e2"
| "chain e = [e]"

section \<open>Strings\<close>

text \<open>\<open>strings.HasPrefix\<close> and \<open>strings.Contains\<close> on byte strings.\<close>

fun HasPrefix :: "string \<Rightarrow> string \<Rightarrow> bool" where
  "HasPrefix s [] = True"
| "HasPrefix [] (c # cs) = False"
| "HasPrefix (d # ds) (c # cs) = (d = c \<and> HasPrefix ds cs)"

fun Contains :: "string \<Rightarrow> string \<Rightarrow> bool" where
  "Contains [] substr = (substr = [])"
| "Contains (c # cs) substr = (HasPrefix (c # cs) substr \<or> Contains cs substr)"

text \<open>
  \<open>filepath.Base\<close> of the standard library, on a system whose separator is the slash:
  the empty path gives a dot, trailing slashes are stripped, the last element is
  returned, and a path of slashes only gives one slash.
\<close>

definition Base :: "string \<Rightarrow> string" where
  "Base path =
     (if path = [] then ''.''
      else
        let stripped = rev (dropWhile (\<lambda>c. c = CHR ''/'') (rev path));
            last_elem = rev (takeWhile (\<lambda>c. c \<noteq> CHR ''/'') (rev stripped))
        in if last_elem = [] then ''/'' else last_elem)"

section \<open>Error Translator\<close>

text \<open>
  \<^verbatim>\<open>
  func convertErr(err error) error {
      if err == nil { return nil }
      if errors.Is(err, gocephfs.ErrNotExist) { return os.ErrNotExist }
      if strings.Contains(err.Error(), "ret=-17") { return os.ErrExist }
      return err
  }
  \<close>
\<close>

fun convertErr :: "error option \<Rightarrow> error option" where
  "convertErr None = None"
| "convertErr (Some err) =
     (if Is_ceph_ErrNotExist err then Some OsErrNotExist
      else if Contains (Error err) ''ret=-17'' then Some OsErrExist
      else Some err)"

section \<open>Mode Translator\<close>

text \<open>
  The constants of \<open>syscall\<close> (Linux) on the raw 16-bit mode and of \<open>os.FileMode\<close>
  (a \<open>uint32\<close>). \<open>0777\<close> is \<open>0x1FF\<close>.
\<close>

definition S_IFMT :: "16 word" where "S_IFMT = 0xF000"
definition S_IFBLK :: "16 word" where "S_IFBLK = 0x6000"
definition S_IFCHR :: "16 word" where "S_IFCHR = 0x2000"
definition S_IFDIR :: "16 word" where "S_IFDIR = 0x4000"
definition S_IFIFO :: "16 word" where "S_IFIFO = 0x1000"
definition S_IFLNK :: "16 word" where "S_IFLNK = 0xA000"
definition S_IFREG :: "16 word" where "S_IFREG = 0x8000"
definition S_IFSOCK :: "16 word" where "S_IFSOCK = 0xC000"
definition S_ISGID :: "16 word" where "S_ISGID = 0x400"
definition S_ISUID :: "16 word" where "S_ISUID = 0x800"
definition S_ISVTX :: "16 word" where "S_ISVTX = 0x200"

type_synonym FileMode = "32 word"

definition ModeDir :: FileMode where "ModeDir = 2 ^ 31"
definition ModeSymlink :: FileMode where "ModeSymlink = 2 ^ 27"
definition ModeDevice :: FileMode where "ModeDevice = 2 ^ 26"
definition ModeNamedPipe :: FileMode where "ModeNamedPipe = 2 ^ 25"
definition ModeSocket :: FileMode where "ModeSocket = 2 ^ 24"
definition ModeSetuid :: FileMode where "ModeSetuid = 2 ^ 23"
definition ModeSetgid :: FileMode where "ModeSetgid = 2 ^ 22"
definition ModeCharDevice :: FileMode where "ModeCharDevice = 2 ^ 21"
definition ModeSticky :: FileMode where "ModeSticky = 2 ^ 20"
definition ModeIrregular :: FileMode where "ModeIrregular = 2 ^ 19"
definition ModePerm :: FileMode where "ModePerm = 0x1FF"

definition ModeType :: FileMode where
  "ModeType = ModeDir OR ModeSymlink OR ModeNamedPipe OR ModeSocket OR ModeDevice
     OR ModeCharDevice OR ModeIrregular"

text \<open>
  \<^verbatim>\<open>
  func toFileMode(mode uint16) os.FileMode {
      var fm = os.FileMode(mode & 0777)
      switch mode & syscall.S_IFMT {
      case syscall.S_IFBLK:  fm |= os.ModeDevice
      case syscall.S_IFCHR:  fm |= os.ModeDevice | os.ModeCharDevice
      case syscall.S_IFDIR:  fm |= os.ModeDir
      case syscall.S_IFIFO:  fm |= os.ModeNamedPipe
      case syscall.S_IFLNK:  fm |= os.ModeSymlink
      case syscall.S_IFREG:  // nothing to do
      case syscall.S_IFSOCK: fm |= os.ModeSocket
      }
      if mode&syscall.S_ISGID != 0 { fm |= os.ModeSetgid }
      if mode&syscall.S_ISUID != 0 { fm |= os.ModeSetuid }
      if mode&syscall.S_ISVTX != 0 { fm |= os.ModeSticky }
      return fm
  }
  \<close>
  The switch is the function \<open>typeFlags\<close> of the masked mode.
\<close>

definition typeFlags :: "16 word \<Rightarrow> FileMode" where
  "typeFlags t =
     (if t = S_IFBLK then ModeDevice
      else if t = S_IFCHR then ModeDevice OR ModeCharDevice
      else if t = S_IFDIR then ModeDir
      else if t = S_IFIFO then ModeNamedPipe
      else if t = S_IFLNK then ModeSymlink
      else if t = S_IFREG then 0
      else if t = S_IFSOCK then ModeSocket
      else 0)"

definition toFileMode :: "16 word \<Rightarrow> FileMode" where
  "toFileMode mode =
     (let fm = ucast (mode AND 0x1FF);
          fm = fm OR typeFlags (mode AND S_IFMT);
          fm = (if mode AND S_ISGID \<noteq> 0 then fm OR ModeSetgid else fm);
          fm = (if mode AND S_ISUID \<noteq> 0 then fm OR ModeSetuid else fm);
          fm = (if mode AND S_ISVTX \<noteq> 0 then fm OR ModeSticky else fm)
      in fm)"

text \<open>\<open>FileMode.IsDir\<close>, \<open>FileMode.Perm\<close>.\<close>

definition IsDir :: "FileMode \<Rightarrow> bool" where
  "IsDir fm = (fm AND ModeDir \<noteq> 0)"

definition Perm :: "FileMode \<Rightarrow> FileMode" where
  "Perm fm = fm AND ModePerm"

section \<open>Remote client\<close>

text \<open>
  The remote filesystem client is a black box. Its handles (\<open>*gocephfs.File\<close>,
  \<open>*gocephfs.Directory\<close>) are numbers; \<open>CephStatx\<close> is its extended stat result,
  \<open>DirEntry\<close> what \<open>ReadDir\<close> yields and \<open>DirEntryPlus\<close> what \<open>ReadDirPlus\<close>
  yields (an entry together with its stat).
\<close>

type_synonym fh = nat
type_synonym dh = nat
type_synonym bytes = "8 word list"

record CephStatx =
  stx_Size :: "64 word"
  stx_Mode :: "16 word"
  stx_Mtime_Sec :: int
  stx_Mtime_Nsec :: int

record DirEntry =
  de_Name :: string
  de_DType :: "8 word"

record DirEntryPlus = DirEntry +
  de_Statx :: CephStatx

text \<open>The entry types of the remote client the adapter names (the values of \<open>dirent.h\<close>).\<close>

definition DTypeDir :: "8 word" where "DTypeDir = 4"
definition DTypeReg :: "8 word" where "DTypeReg = 8"
definition DTypeLnk :: "8 word" where "DTypeLnk = 10"

text \<open>
  Every call the adapter makes on the remote client. The constant arguments
  \<open>StatxBasicStats, 0\<close> of the stat calls are left out.
\<close>

datatype call =
    M_Open string int "32 word"
  | M_MakeDir string "32 word"
  | M_MakeDirs string "32 word"
  | M_OpenDir string
  | M_Unlink string
  | M_RemoveDir string
  | M_Rename string string
  | M_Statx string
  | M_Chmod string "32 word"
  | M_Chown string "32 word" "32 word"
  | F_Close fh
  | F_Read fh bytes
  | F_ReadAt fh bytes int
  | F_Write fh bytes
  | F_WriteAt fh bytes int
  | F_Seek fh int int
  | F_Fstatx fh
  | F_Sync fh
  | F_Truncate fh int
  | D_ReadDir dh
  | D_ReadDirPlus dh
  | D_Close dh

text \<open>
  The state of the remote side is the list of calls made so far (oldest first), and a
  client is any assignment of replies to calls that may depend on that history: every
  behaviour of the remote filesystem in one sequential run is of this form. A reply is
  what the Go method returns: an error or a value, or for the calls on file contents
  the count, the buffer after the call and the error.
\<close>

record client =
  on_err :: "call list \<Rightarrow> call \<Rightarrow> error option"
  on_open :: "call list \<Rightarrow> call \<Rightarrow> error + fh"
  on_opendir :: "call list \<Rightarrow> call \<Rightarrow> error + dh"
  on_statx :: "call list \<Rightarrow> call \<Rightarrow> error + CephStatx"
  on_readdir :: "call list \<Rightarrow> call \<Rightarrow> error + DirEntry option"
  on_readdirplus :: "call list \<Rightarrow> call \<Rightarrow> error + DirEntryPlus option"
  on_io :: "call list \<Rightarrow> call \<Rightarrow> int \<times> bytes \<times> error option"

definition invoke :: "(call list \<Rightarrow> call \<Rightarrow> 'r) \<Rightarrow> call \<Rightarrow> call list \<Rightarrow> 'r \<times> call list" where
  "invoke reply c tr = (reply tr c, tr @ [c])"

definition mount_Open :: "client \<Rightarrow> string \<Rightarrow> int \<Rightarrow> 32 word \<Rightarrow> call list \<Rightarrow> (error + fh) \<times> call list" where
  "mount_Open m p flag perm = invoke (on_open m) (M_Open p flag perm)"

definition mount_MakeDir :: "client \<Rightarrow> string \<Rightarrow> 32 word \<Rightarrow> call list \<Rightarrow> error option \<times> call list" where
  "mount_MakeDir m p perm = invoke (on_err m) (M_MakeDir p perm)"

definition mount_MakeDirs :: "client \<Rightarrow> string \<Rightarrow> 32 word \<Rightarrow> call list \<Rightarrow> error option \<times> call list" where
  "mount_MakeDirs m p perm = invoke (on_err m) (M_MakeDirs p perm)"

definition mount_OpenDir :: "client \<Rightarrow> string \<Rightarrow> call list \<Rightarrow> (error + dh) \<times> call list" where
  "mount_OpenDir m p = invoke (on_opendir m) (M_OpenDir p)"

definition mount_Unlink :: "client \<Rightarrow> string \<Rightarrow> call list \<Rightarrow> error option \<times> call list" where
  "mount_Unlink m p = invoke (on_err m) (M_Unlink p)"

definition mount_RemoveDir :: "client \<Rightarrow> string \<Rightarrow> call list \<Rightarrow> error option \<times> call list" where
  "mount_RemoveDir m p = invoke (on_err m) (M_RemoveDir p)"

definition mount_Rename :: "client \<Rightarrow> string \<Rightarrow> string \<Rightarrow> call list \<Rightarrow> error option \<times> call list" where
  "mount_Rename m p q = invoke (on_err m) (M_Rename p q)"

definition mount_Statx :: "client \<Rightarrow> string \<Rightarrow> call list \<Rightarrow> (error + CephStatx) \<times> call list" where
  "mount_Statx m p = invoke (on_statx m) (M_Statx p)"

definition mount_Chmod :: "client \<Rightarrow> string \<Rightarrow> 32 word \<Rightarrow> call list \<Rightarrow> error option \<times> call list" where
  "mount_Chmod m p mode = invoke (on_err m) (M_Chmod p mode)"

definition mount_Chown :: "client \<Rightarrow> string \<Rightarrow> 32 word \<Rightarrow> 32 word \<Rightarrow> call list \<Rightarrow> error option \<times> call list" where
  "mount_Chown m p uid gid = invoke (on_err m) (M_Chown p uid gid)"

definition cfile_Close :: "client \<Rightarrow> fh \<Rightarrow> call list \<Rightarrow> error option \<times> call list" where
  "cfile_Close m h = invoke (on_err m) (F_Close h)"

definition cfile_Read :: "client \<Rightarrow> fh \<Rightarrow> bytes \<Rightarrow> call list \<Rightarrow> (int \<times> bytes \<times> error option) \<times> call list" where
  "cfile_Read m h buf = invoke (on_io m) (F_Read h buf)"

definition cfile_ReadAt :: "client \<Rightarrow> fh \<Rightarrow> bytes \<Rightarrow> int \<Rightarrow> call list \<Rightarrow> (int \<times> bytes \<times> error option) \<times> call list" where
  "cfile_ReadAt m h buf off = invoke (on_io m) (F_ReadAt h buf off)"

definition cfile_Write :: "client \<Rightarrow> fh \<Rightarrow> bytes \<Rightarrow> call list \<Rightarrow> (int \<times> bytes \<times> error option) \<times> call list" where
  "cfile_Write m h buf = invoke (on_io m) (F_Write h buf)"

definition cfile_WriteAt :: "client \<Rightarrow> fh \<Rightarrow> bytes \<Rightarrow> int \<Rightarrow> call list \<Rightarrow> (int \<times> bytes \<times> error option) \<times> call list" where
  "cfile_WriteAt m h buf off = invoke (on_io m) (F_WriteAt h buf off)"

definition cfile_Seek :: "client \<Rightarrow> fh \<Rightarrow> int \<Rightarrow> int \<Rightarrow> call list \<Rightarrow> (int \<times> bytes \<times> error option) \<times> call list" where
  "cfile_Seek m h off whence = invoke (on_io m) (F_Seek h off whence)"

definition cfile_Fstatx :: "client \<Rightarrow> fh \<Rightarrow> call list \<Rightarrow> (error + CephStatx) \<times> call list" where
  "cfile_Fstatx m h = invoke (on_statx m) (F_Fstatx h)"

definition cfile_Sync :: "client \<Rightarrow> fh \<Rightarrow> call list \<Rightarrow> error option \<times> call list" where
  "cfile_Sync m h = invoke (on_err m) (F_Sync h)"

definition cfile_Truncate :: "client \<Rightarrow> fh \<Rightarrow> int \<Rightarrow> call list \<Rightarrow> error option \<times> call list" where
  "cfile_Truncate m h sz = invoke (on_err m) (F_Truncate h sz)"

definition cdir_ReadDir :: "client \<Rightarrow> dh \<Rightarrow> call list \<Rightarrow> (error + DirEntry option) \<times> call list" where
  "cdir_ReadDir m d = invoke (on_readdir m) (D_ReadDir d)"

definition cdir_ReadDirPlus :: "client \<Rightarrow> dh \<Rightarrow> call list \<Rightarrow> (error + DirEntryPlus option) \<times> call list" where
  "cdir_ReadDirPlus m d = invoke (on_readdirplus m) (D_ReadDirPlus d)"

definition cdir_Close :: "client \<Rightarrow> dh \<Rightarrow> call list \<Rightarrow> error option \<times> call list" where
  "cdir_Close m d = invoke (on_err m) (D_Close d)"

section \<open>Entry/Info Adapter\<close>

record FileInfo =
  info_stat :: CephStatx
  info_path :: string

definition FileInfo_Name :: "FileInfo \<Rightarrow> string" where
  "FileInfo_Name info = Base (info_path info)"

definition FileInfo_Mode :: "FileInfo \<Rightarrow> FileMode" where
  "FileInfo_Mode info = toFileMode (stx_Mode (info_stat info))"

definition FileInfo_IsDir :: "FileInfo \<Rightarrow> bool" where
  "FileInfo_IsDir info = IsDir (FileInfo_Mode info)"

section \<open>Filesystem Adapter\<close>

text \<open>
  The handle of the adapter: \<open>f_file\<close> and \<open>f_dir\<close> are the two pointers of the Go
  struct, \<open>None\<close> for nil. The mount is the client every function takes.
  A Go result \<open>(value, error)\<close> is a pair when the code can return both parts
  independently, and a sum when it returns exactly one of them.
\<close>

record File =
  f_path :: string
  f_file :: "fh option"
  f_dir :: "dh option"

definition O_RDONLY :: int where "O_RDONLY = 0"
definition O_RDWR :: int where "O_RDWR = 2"
definition O_CREATE :: int where "O_CREATE = 0x40"
definition O_TRUNC :: int where "O_TRUNC = 0x200"

text \<open>
  \<open>fmt.Errorf(pre + "%w", err)\<close> on an error that may be nil: a nil operand is not
  wrapped but printed as a bad verb.
\<close>

fun fmt_Errorf :: "string \<Rightarrow> error option \<Rightarrow> error" where
  "fmt_Errorf pre (Some err) = Errorf pre err"
| "fmt_Errorf pre None = ErrorsNew (pre @ ''%!w(<nil>)'')"

text \<open>\<open>Create\<close> opens with \<open>O_RDWR|O_CREATE|O_TRUNC\<close> and mode \<open>0666\<close>.\<close>

definition Fs_Create :: "client \<Rightarrow> string \<Rightarrow> call list \<Rightarrow> (File option \<times> error option) \<times> call list" where
  "Fs_Create m path tr =
     (case mount_Open m path (O_RDWR OR O_CREATE OR O_TRUNC) 0x1B6 tr of
        (Inl err, tr1) \<Rightarrow> ((None, Some err), tr1)
      | (Inr cfile, tr1) \<Rightarrow>
          ((Some \<lparr>f_path = path, f_file = Some cfile, f_dir = None\<rparr>, None), tr1))"

definition Fs_Mkdir :: "client \<Rightarrow> string \<Rightarrow> FileMode \<Rightarrow> call list \<Rightarrow> error option \<times> call list" where
  "Fs_Mkdir m path perm tr =
     (case mount_MakeDir m path (Perm perm) tr of
        (Some err, tr1) \<Rightarrow>
          (Some (fmt_Errorf (''failed to create directory '' @ path @ '': '')
                   (convertErr (Some err))), tr1)
      | (None, tr1) \<Rightarrow> (None, tr1))"

definition Fs_MkdirAll :: "client \<Rightarrow> string \<Rightarrow> FileMode \<Rightarrow> call list \<Rightarrow> error option \<times> call list" where
  "Fs_MkdirAll m path perm tr = mount_MakeDirs m path (Perm perm) tr"

definition Fs_OpenFile :: "client \<Rightarrow> string \<Rightarrow> int \<Rightarrow> FileMode \<Rightarrow> call list \<Rightarrow> (File option \<times> error option) \<times> call list" where
  "Fs_OpenFile m path flag perm tr =
     (case mount_Open m path flag (Perm perm) tr of
        (Inl err, tr1) \<Rightarrow> ((None, convertErr (Some err)), tr1)
      | (Inr cfile, tr1) \<Rightarrow>
          (case cfile_Fstatx m cfile tr1 of
             (Inl err, tr2) \<Rightarrow> ((None, Some err), tr2)
           | (Inr info, tr2) \<Rightarrow>
               if IsDir (toFileMode (stx_Mode info)) then
                 (case mount_OpenDir m path tr2 of
                    (Inl err, tr3) \<Rightarrow> ((None, convertErr (Some err)), tr3)
                  | (Inr dir, tr3) \<Rightarrow>
                      ((Some \<lparr>f_path = path, f_file = Some cfile, f_dir = Some dir\<rparr>, None),
                       tr3))
               else ((Some \<lparr>f_path = path, f_file = Some cfile, f_dir = None\<rparr>, None), tr2)))"

definition Fs_Open :: "client \<Rightarrow> string \<Rightarrow> call list \<Rightarrow> (File option \<times> error option) \<times> call list" where
  "Fs_Open m path tr = Fs_OpenFile m path O_RDONLY 0 tr"

definition Fs_Remove :: "client \<Rightarrow> string \<Rightarrow> call list \<Rightarrow> error option \<times> call list" where
  "Fs_Remove m path tr =
     (case mount_Unlink m path tr of (err, tr1) \<Rightarrow> (convertErr err, tr1))"

definition Fs_Stat :: "client \<Rightarrow> string \<Rightarrow> call list \<Rightarrow> (error + FileInfo) \<times> call list" where
  "Fs_Stat m path tr =
     (case mount_Statx m path tr of
        (Inl err, tr1) \<Rightarrow>
          if Is_ceph_ErrNotExist err then (Inl OsErrNotExist, tr1) else (Inl err, tr1)
      | (Inr stat, tr1) \<Rightarrow> (Inr \<lparr>info_stat = stat, info_path = path\<rparr>, tr1))"

definition Fs_Rename :: "client \<Rightarrow> string \<Rightarrow> string \<Rightarrow> call list \<Rightarrow> error option \<times> call list" where
  "Fs_Rename m oldPath newPath tr = mount_Rename m oldPath newPath tr"

definition Fs_Chmod :: "client \<Rightarrow> string \<Rightarrow> FileMode \<Rightarrow> call list \<Rightarrow> error option \<times> call list" where
  "Fs_Chmod m path mode tr = mount_Chmod m path (Perm mode) tr"

text \<open>\<open>uint32(uid)\<close> keeps the low 32 bits of the Go \<open>int\<close>.\<close>

definition Fs_Chown :: "client \<Rightarrow> string \<Rightarrow> int \<Rightarrow> int \<Rightarrow> call list \<Rightarrow> error option \<times> call list" where
  "Fs_Chown m path uid gid tr = mount_Chown m path (word_of_int uid) (word_of_int gid) tr"

subsection \<open>Recursive delete\<close>

text \<open>
  \<^verbatim>\<open>
  func forDirItem(dir *gocephfs.Directory, callback func(*gocephfs.DirEntry) error) error {
      for {
          de, err := dir.ReadDir()
          if err != nil { return fmt.Errorf("failed to readdir: %w", err) }
          if de == nil { break }
          err = callback(de)
          if err != nil { return fmt.Errorf("DirEntry callback failed: %w", err) }
      }
      return nil
  }
  \<close>
  The loop runs for as long as the remote client yields entries, and \<open>RemoveAll\<close>
  recurses for as long as it reports directories: both take fuel, one unit for each
  iteration and each call, and \<open>None\<close> is a run that did not return within the fuel.
\<close>

fun forDirItem ::
  "nat \<Rightarrow> client \<Rightarrow> dh \<Rightarrow> (DirEntry \<Rightarrow> call list \<Rightarrow> (error option \<times> call list) option)
     \<Rightarrow> call list \<Rightarrow> (error option \<times> call list) option" where
  "forDirItem 0 m dir callback tr = None"
| "forDirItem (Suc fuel) m dir callback tr =
     (case cdir_ReadDir m dir tr of
        (Inl err, tr1) \<Rightarrow> Some (Some (Errorf ''failed to readdir: '' err), tr1)
      | (Inr None, tr1) \<Rightarrow> Some (None, tr1)
      | (Inr (Some de), tr1) \<Rightarrow>
          (case callback de tr1 of
             None \<Rightarrow> None
           | Some (Some err, tr2) \<Rightarrow>
               Some (Some (Errorf ''DirEntry callback failed: '' err), tr2)
           | Some (None, tr2) \<Rightarrow> forDirItem fuel m dir callback tr2))"

text \<open>
  \<open>RemoveAll\<close>; \<open>defer dir.Close()\<close> runs when the function returns after the
  directory was opened, and its result is dropped.
\<close>

fun Fs_RemoveAll :: "nat \<Rightarrow> client \<Rightarrow> string \<Rightarrow> call list \<Rightarrow> (error option \<times> call list) option" where
  "Fs_RemoveAll 0 m path tr = None"
| "Fs_RemoveAll (Suc fuel) m path tr =
     (case Fs_Stat m path tr of
        (Inl err, tr1) \<Rightarrow>
          if os_IsNotExist err then Some (None, tr1) else Some (Some err, tr1)
      | (Inr stat, tr1) \<Rightarrow>
          if \<not> FileInfo_IsDir stat then
            (case Fs_Remove m path tr1 of
               (Some err, tr2) \<Rightarrow>
                 Some (Some (Errorf (CHR 0x27 # ''RemoveAll'' @ CHR 0x27 # '' failed to remove file at path '' @ path @ '': '') err), tr2)
             | (None, tr2) \<Rightarrow> Some (None, tr2))
          else
            (case mount_OpenDir m path tr1 of
               (Inl err, tr2) \<Rightarrow>
                 Some (Some (Errorf (''failed to open dir '' @ path @ '': '') err), tr2)
             | (Inr dir, tr2) \<Rightarrow>
                 (case forDirItem fuel m dir
                    (\<lambda>de trc.
                       if de_Name de = ''.'' \<or> de_Name de = ''..'' then Some (None, trc)
                       else
                         let fullPath = path @ ''/'' @ de_Name de in
                         if de_DType de = DTypeDir then
                           (case Fs_RemoveAll fuel m fullPath trc of
                              None \<Rightarrow> None
                            | Some (Some err, trd) \<Rightarrow> Some (Some err, trd)
                            | Some (None, trd) \<Rightarrow> Some (None, trd))
                         else if de_DType de = DTypeLnk \<or> de_DType de = DTypeReg then
                           (case mount_Unlink m fullPath trc of
                              (Some err, trd) \<Rightarrow>
                                Some (Some (Errorf (''failed to remove file '' @ fullPath @ '': '') err), trd)
                            | (None, trd) \<Rightarrow> Some (None, trd))
                         else
                           (case mount_Unlink m fullPath trc of
                              (Some err, trd) \<Rightarrow>
                                Some (Some (Errorf ''failed to remove unknown entry: '' err), trd)
                            | (None, trd) \<Rightarrow> Some (None, trd)))
                    tr2 of
                    None \<Rightarrow> None
                  | Some (Some err, tr3) \<Rightarrow> Some (Some err, snd (cdir_Close m dir tr3))
                  | Some (None, tr3) \<Rightarrow>
                      (case mount_RemoveDir m path tr3 of
                         (Some err, tr4) \<Rightarrow> Some (Some err, snd (cdir_Close m dir tr4))
                       | (None, tr4) \<Rightarrow> Some (None, snd (cdir_Close m dir tr4))))))"

section \<open>Handle Adapter\<close>

text \<open>
  \<^verbatim>\<open>
  func (f *File) Close() error {
      var errs []error
      if f.file != nil {
          if err := f.file.Close(); err != nil { errs = append(errs, err) }
      }
      if f.dir != nil {
          if err := f.dir.Close(); err != nil { errs = append(errs, err) }
      }
      if len(errs) > 1 {
          return fmt.Errorf("failed to close file for reasons; %w; %w", errs[0], errs[1])
      }
      if len(errs) == 1 { return errs[0] }
      return nil
  }
  \<close>
\<close>

definition File_Close :: "client \<Rightarrow> File \<Rightarrow> call list \<Rightarrow> error option \<times> call list" where
  "File_Close m f tr =
     (let (errs, tr1) =
            (case f_file f of
               None \<Rightarrow> ([], tr)
             | Some h \<Rightarrow>
                 (case cfile_Close m h tr of
                    (Some err, tr') \<Rightarrow> ([] @ [err], tr')
                  | (None, tr') \<Rightarrow> ([], tr')));
          (errs, tr2) =
            (case f_dir f of
               None \<Rightarrow> (errs, tr1)
             | Some d \<Rightarrow>
                 (case cdir_Close m d tr1 of
                    (Some err, tr') \<Rightarrow> (errs @ [err], tr')
                  | (None, tr') \<Rightarrow> (errs, tr')))
      in case errs of
           e0 # e1 # rest \<Rightarrow> (Some (Errorf2 ''failed to close file for reasons; '' e0 ''; '' e1), tr2)
         | [e0] \<Rightarrow> (Some e0, tr2)
         | [] \<Rightarrow> (None, tr2))"

text \<open>
  The operations on the file capability. \<open>Read\<close> and \<open>ReadAt\<close> return the count,
  the buffer after the call and the error; the others the count and the error, or the
  error alone.
\<close>

definition File_Read :: "client \<Rightarrow> File \<Rightarrow> bytes \<Rightarrow> call list \<Rightarrow> (int \<times> bytes \<times> error option) \<times> call list" where
  "File_Read m f buf tr =
     (case f_file f of
        None \<Rightarrow> ((0, buf, Some ErrFileNil), tr)
      | Some h \<Rightarrow> cfile_Read m h buf tr)"

definition File_ReadAt :: "client \<Rightarrow> File \<Rightarrow> bytes \<Rightarrow> int \<Rightarrow> call list \<Rightarrow> (int \<times> bytes \<times> error option) \<times> call list" where
  "File_ReadAt m f buf offset tr =
     (case f_file f of
        None \<Rightarrow> ((0, buf, Some ErrFileNil), tr)
      | Some h \<Rightarrow> cfile_ReadAt m h buf offset tr)"

definition File_Write :: "client \<Rightarrow> File \<Rightarrow> bytes \<Rightarrow> call list \<Rightarrow> (int \<times> error option) \<times> call list" where
  "File_Write m f buf tr =
     (case f_file f of
        None \<Rightarrow> ((0, Some ErrFileNil), tr)
      | Some h \<Rightarrow> (case cfile_Write m h buf tr of ((n, b, err), tr1) \<Rightarrow> ((n, err), tr1)))"

definition File_WriteAt :: "client \<Rightarrow> File \<Rightarrow> bytes \<Rightarrow> int \<Rightarrow> call list \<Rightarrow> (int \<times> error option) \<times> call list" where
  "File_WriteAt m f buf off tr =
     (case f_file f of
        None \<Rightarrow> ((0, Some ErrFileNil), tr)
      | Some h \<Rightarrow> (case cfile_WriteAt m h buf off tr of ((n, b, err), tr1) \<Rightarrow> ((n, err), tr1)))"

definition File_Seek :: "client \<Rightarrow> File \<Rightarrow> int \<Rightarrow> int \<Rightarrow> call list \<Rightarrow> (int \<times> error option) \<times> call list" where
  "File_Seek m f offset whence tr =
     (case f_file f of
        None \<Rightarrow> ((0, Some ErrFileNil), tr)
      | Some h \<Rightarrow>
          (case cfile_Seek m h offset whence tr of ((n, b, err), tr1) \<Rightarrow> ((n, err), tr1)))"

definition File_Stat :: "client \<Rightarrow> File \<Rightarrow> call list \<Rightarrow> (error + FileInfo) \<times> call list" where
  "File_Stat m f tr =
     (case f_file f of
        None \<Rightarrow> (Inl ErrFileNil, tr)
      | Some h \<Rightarrow>
          (case cfile_Fstatx m h tr of
             (Inl err, tr1) \<Rightarrow> (Inl err, tr1)
           | (Inr stat, tr1) \<Rightarrow> (Inr \<lparr>info_stat = stat, info_path = f_path f\<rparr>, tr1)))"

definition File_Sync :: "client \<Rightarrow> File \<Rightarrow> call list \<Rightarrow> error option \<times> call list" where
  "File_Sync m f tr =
     (case f_file f of
        None \<Rightarrow> (Some ErrFileNil, tr)
      | Some h \<Rightarrow> cfile_Sync m h tr)"

definition File_Truncate :: "client \<Rightarrow> File \<Rightarrow> int \<Rightarrow> call list \<Rightarrow> error option \<times> call list" where
  "File_Truncate m f sz tr =
     (case f_file f of
        None \<Rightarrow> (Some ErrFileNil, tr)
      | Some h \<Rightarrow> cfile_Truncate m h sz tr)"

text \<open>\<open>[]byte(s)\<close>: the bytes of a string.\<close>

definition bytes_of :: "string \<Rightarrow> bytes" where
  "bytes_of s = map of_char s"

definition File_WriteString :: "client \<Rightarrow> File \<Rightarrow> string \<Rightarrow> call list \<Rightarrow> (int \<times> error option) \<times> call list" where
  "File_WriteString m f s tr =
     (case f_file f of
        None \<Rightarrow> ((0, Some ErrFileNil), tr)
      | Some h \<Rightarrow> File_Write m f (bytes_of s) tr)"

section \<open>Directory Enumeration Engine\<close>

text \<open>
  \<^verbatim>\<open>
  func (f *File) Readdir(count int) ([]os.FileInfo, error) {
      if f.dir == nil { return nil, ErrDirNil }
      if count == 0 { count = -1 }
      list := make([]os.FileInfo, 0)
      for {
          if count == 0 { return list, nil }
          de, err := f.dir.ReadDirPlus(gocephfs.StatxBasicStats, 0)
          if err != nil { return list, fmt.Errorf("cephfs: failed to list file: %w", err) }
          if de == nil {
              if count > 0 { return list, io.EOF }
              return list, nil
          }
          if name := de.Name(); name != "." && name != ".." {
              fullPath := f.path + "/" + de.Name()
              item := &FileInfo{stat: de.Statx(), path: fullPath}
              list = append(list, item)
              if count > 0 { count-- }
          }
      }
  }
  \<close>
  The loop takes fuel, one unit for each iteration. A slice is a list, the nil slice
  the empty list; \<open>count\<close> is only ever decremented while positive, so the Go
  \<open>int\<close> never overflows and is an \<open>int\<close> here.
\<close>

fun Readdir_loop ::
  "nat \<Rightarrow> client \<Rightarrow> string \<Rightarrow> dh \<Rightarrow> int \<Rightarrow> FileInfo list \<Rightarrow> call list
     \<Rightarrow> ((FileInfo list \<times> error option) \<times> call list) option" where
  "Readdir_loop 0 m path dir count list tr = None"
| "Readdir_loop (Suc fuel) m path dir count list tr =
     (if count = 0 then Some ((list, None), tr)
      else
        (case cdir_ReadDirPlus m dir tr of
           (Inl err, tr1) \<Rightarrow>
             Some ((list, Some (Errorf ''cephfs: failed to list file: '' err)), tr1)
         | (Inr None, tr1) \<Rightarrow>
             if count > 0 then Some ((list, Some IoEOF), tr1) else Some ((list, None), tr1)
         | (Inr (Some de), tr1) \<Rightarrow>
             if de_Name de \<noteq> ''.'' \<and> de_Name de \<noteq> ''..'' then
               let fullPath = path @ ''/'' @ de_Name de;
                   item = \<lparr>info_stat = de_Statx de, info_path = fullPath\<rparr>
               in Readdir_loop fuel m path dir (if count > 0 then count - 1 else count)
                    (list @ [item]) tr1
             else Readdir_loop fuel m path dir count list tr1))"

definition File_Readdir ::
  "nat \<Rightarrow> client \<Rightarrow> File \<Rightarrow> int \<Rightarrow> call list \<Rightarrow> ((FileInfo list \<times> error option) \<times> call list) option" where
  "File_Readdir fuel m f count tr =
     (case f_dir f of
        None \<Rightarrow> Some (([], Some ErrDirNil), tr)
      | Some dir \<Rightarrow>
          Readdir_loop fuel m (f_path f) dir (if count = 0 then - 1 else count) [] tr)"

text \<open>
  \<^verbatim>\<open>
  func (f *File) Readdirnames(count int) ([]string, error) {
      deList, err := f.Readdir(count)
      list := make([]string, 0)
      for _, item := range deList { list = append(list, item.Name()) }
      return list, err
  }
  \<close>
\<close>

definition File_Readdirnames ::
  "nat \<Rightarrow> client \<Rightarrow> File \<Rightarrow> int \<Rightarrow> call list \<Rightarrow> ((string list \<times> error option) \<times> call list) option" where
  "File_Readdirnames fuel m f count tr =
     (case File_Readdir fuel m f count tr of
        None \<Rightarrow> None
      | Some ((deList, err), tr1) \<Rightarrow>
          Some ((foldl (\<lambda>list item. list @ [FileInfo_Name item]) [] deList, err), tr1))"

subsection \<open>The variant of the handle that embeds the remote file\<close>

text \<open>
  The second variant of the package has a handle that embeds \<open>*gocephfs.File\<close> and
  has no directory capability; its \<open>Readdir\<close> and \<open>Readdirnames\<close> go through
  \<open>listFromDir\<close>, which opens the directory anew at every call.
  \<^verbatim>\<open>
  func listFromDir[T any](file *File, count int,
          callback func(*gocephfs.DirEntry) (T, error)) ([]T, error) {
      stat, err := file.Stat()
      if err != nil { return nil, err }
      if stat.IsDir() {
          dir, err := file.mount.OpenDir(file.path)
          if err != nil { return nil, fmt.Errorf("failed %w", err) }
          defer dir.Close()
          if count == 0 { count = -1 }
          list := make([]T, 0)
          for count != 0 {
              de, err := dir.ReadDir()
              if err != nil { return list, fmt.Errorf("failed cephfs.ReadDir: %w", err) }
              if de == nil { return list, nil }
              item, err := callback(de)
              if err != nil { return list, fmt.Errorf("listFromDir callback failed: %w", err) }
              list = append(list, item)
              if count > 0 { count-- }
          }
          return list, nil
      } else {
          return nil, errors.New("not a directory")
      }
  }
  \<close>
\<close>

record EFile =
  ef_File :: fh
  ef_path :: string

definition EFile_Stat :: "client \<Rightarrow> EFile \<Rightarrow> call list \<Rightarrow> (error + FileInfo) \<times> call list" where
  "EFile_Stat m f tr =
     (case cfile_Fstatx m (ef_File f) tr of
        (Inl err, tr1) \<Rightarrow> (Inl err, tr1)
      | (Inr stat, tr1) \<Rightarrow> (Inr \<lparr>info_stat = stat, info_path = ef_path f\<rparr>, tr1))"

fun listFromDir_loop ::
  "nat \<Rightarrow> client \<Rightarrow> dh \<Rightarrow> int \<Rightarrow> (DirEntry \<Rightarrow> call list \<Rightarrow> (error + 'a) \<times> call list)
     \<Rightarrow> 'a list \<Rightarrow> call list \<Rightarrow> (('a list \<times> error option) \<times> call list) option" where
  "listFromDir_loop 0 m dir count callback list tr = None"
| "listFromDir_loop (Suc fuel) m dir count callback list tr =
     (if count \<noteq> 0 then
        (case cdir_ReadDir m dir tr of
           (Inl err, tr1) \<Rightarrow> Some ((list, Some (Errorf ''failed cephfs.ReadDir: '' err)), tr1)
         | (Inr None, tr1) \<Rightarrow> Some ((list, None), tr1)
         | (Inr (Some de), tr1) \<Rightarrow>
             (case callback de tr1 of
                (Inl err, tr2) \<Rightarrow>
                  Some ((list, Some (Errorf ''listFromDir callback failed: '' err)), tr2)
              | (Inr item, tr2) \<Rightarrow>
                  listFromDir_loop fuel m dir (if count > 0 then count - 1 else count)
                    callback (list @ [item]) tr2))
      else Some ((list, None), tr))"

definition listFromDir ::
  "nat \<Rightarrow> client \<Rightarrow> EFile \<Rightarrow> int \<Rightarrow> (DirEntry \<Rightarrow> call list \<Rightarrow> (error + 'a) \<times> call list)
     \<Rightarrow> call list \<Rightarrow> (('a list \<times> error option) \<times> call list) option" where
  "listFromDir fuel m file count callback tr =
     (case EFile_Stat m file tr of
        (Inl err, tr1) \<Rightarrow> Some (([], Some err), tr1)
      | (Inr stat, tr1) \<Rightarrow>
          if FileInfo_IsDir stat then
            (case mount_OpenDir m (ef_path file) tr1 of
               (Inl err, tr2) \<Rightarrow> Some (([], Some (Errorf ''failed '' err)), tr2)
             | (Inr dir, tr2) \<Rightarrow>
                 (case listFromDir_loop fuel m dir (if count = 0 then - 1 else count)
                         callback [] tr2 of
                    None \<Rightarrow> None
                  | Some (res, tr3) \<Rightarrow> Some (res, snd (cdir_Close m dir tr3))))
          else Some (([], Some (ErrorsNew ''not a directory'')), tr1))"

definition EFile_Readdir ::
  "nat \<Rightarrow> client \<Rightarrow> EFile \<Rightarrow> int \<Rightarrow> call list \<Rightarrow> ((FileInfo list \<times> error option) \<times> call list) option" where
  "EFile_Readdir fuel m f count tr =
     listFromDir fuel m f count
       (\<lambda>de trc.
          let fullPath = ef_path f @ ''/'' @ de_Name de in
          case mount_Statx m fullPath trc of
            (Inl err, trd) \<Rightarrow>
              (Inl (Errorf (''failed to statx file '' @ fullPath @ '': '') err), trd)
          | (Inr stat, trd) \<Rightarrow> (Inr \<lparr>info_stat = stat, info_path = fullPath\<rparr>, trd))
       tr"

definition EFile_Readdirnames ::
  "nat \<Rightarrow> client \<Rightarrow> EFile \<Rightarrow> int \<Rightarrow> call list \<Rightarrow> ((string list \<times> error option) \<times> call list) option" where
  "EFile_Readdirnames fuel m f n tr =
     listFromDir fuel m f n (\<lambda>de trc. (Inr (de_Name de), trc)) tr"

section \<open>Notions the properties are stated with\<close>

subsection \<open>Type flags\<close>

text \<open>
  The type flags of \<open>os.FileMode\<close> (the bits of \<open>ModeType\<close>), and those of them that
  are set in a mode.
\<close>

definition type_flags :: "FileMode list" where
  "type_flags =
     [ModeDir, ModeSymlink, ModeNamedPipe, ModeSocket, ModeDevice, ModeCharDevice, ModeIrregular]"

definition flags_set :: "FileMode \<Rightarrow> FileMode list" where
  "flags_set fm = filter (\<lambda>flag. fm AND flag \<noteq> 0) type_flags"

subsection \<open>Directory streams\<close>

text \<open>
  The pseudo-entries are the names \<open>.\<close> and \<open>..\<close>. \<open>infoOf path de\<close> is the
  metadata record \<open>Readdir\<close> builds for an entry of the directory \<open>path\<close>.
\<close>

definition pseudo :: "string \<Rightarrow> bool" where
  "pseudo name = (name = ''.'' \<or> name = ''..'')"

definition infoOf :: "string \<Rightarrow> DirEntryPlus \<Rightarrow> FileInfo" where
  "infoOf path de = \<lparr>info_stat = de_Statx de, info_path = path @ ''/'' @ de_Name de\<rparr>"

text \<open>The entries of a stream that are no pseudo-entries, in the order of the stream.\<close>

definition listed :: "DirEntryPlus list \<Rightarrow> DirEntryPlus list" where
  "listed des = filter (\<lambda>de. \<not> pseudo (de_Name de)) des"

text \<open>A name a directory entry can have: not empty, and without a slash.\<close>

definition entry_name :: "string \<Rightarrow> bool" where
  "entry_name name = (name \<noteq> [] \<and> CHR ''/'' \<notin> set name)"

text \<open>
  The base name of a path, in the words of the documentation of \<open>filepath.Base\<close>:
  the last element of the path, trailing slashes removed before it is extracted; a dot
  for the empty path, and one slash for a path of slashes only. An element is a
  non-empty run of characters other than the slash that starts the path or follows a
  slash.
\<close>

definition base_name :: "string \<Rightarrow> string \<Rightarrow> bool" where
  "base_name path name =
     (if path = [] then name = ''.''
      else if set path \<subseteq> {CHR ''/''} then name = ''/''
      else name \<noteq> [] \<and> CHR ''/'' \<notin> set name
           \<and> (\<exists>pre slashes. path = pre @ name @ slashes
                  \<and> set slashes \<subseteq> {CHR ''/''}
                  \<and> (pre = [] \<or> last pre = CHR ''/'')))"

text \<open>
  \<open>reads m dir tr des\<close>: from the history \<open>tr\<close> on, successive \<open>ReadDirPlus\<close> calls on
  \<open>dir\<close> yield the entries \<open>des\<close>, in this order. What the call after them yields (the
  end of the stream or an error) is said apart.
\<close>

fun reads :: "client \<Rightarrow> dh \<Rightarrow> call list \<Rightarrow> DirEntryPlus list \<Rightarrow> bool" where
  "reads m dir tr [] = True"
| "reads m dir tr (de # des) =
     (fst (cdir_ReadDirPlus m dir tr) = Inr (Some de)
      \<and> reads m dir (snd (cdir_ReadDirPlus m dir tr)) des)"

definition after_reads :: "dh \<Rightarrow> call list \<Rightarrow> nat \<Rightarrow> call list" where
  "after_reads dir tr n = tr @ replicate n (D_ReadDirPlus dir)"

text \<open>
  For \<open>listFromDir\<close>, whose transform may call the remote client between two reads:
  \<open>transforms m dir callback tr ps\<close> is the history reached from \<open>tr\<close> when the reads
  yield the entries of \<open>ps\<close> and the transform turns each into the item paired with
  it, and \<open>None\<close> when the run does not go this way.
\<close>

fun transforms ::
  "client \<Rightarrow> dh \<Rightarrow> (DirEntry \<Rightarrow> call list \<Rightarrow> (error + 'a) \<times> call list) \<Rightarrow> call list
     \<Rightarrow> (DirEntry \<times> 'a) list \<Rightarrow> call list option" where
  "transforms m dir callback tr [] = Some tr"
| "transforms m dir callback tr (p # ps) =
     (case cdir_ReadDir m dir tr of
        (Inr (Some de), tr1) \<Rightarrow>
          (case callback de tr1 of
             (Inr item, tr2) \<Rightarrow>
               if de = fst p \<and> item = snd p then transforms m dir callback tr2 ps else None
           | (Inl err, tr2) \<Rightarrow> None)
      | (Inr None, tr1) \<Rightarrow> None
      | (Inl err, tr1) \<Rightarrow> None)"

subsection \<open>Translated errors\<close>

text \<open>An error has passed through the Error Translator when the translator returns it.\<close>

definition translated :: "error \<Rightarrow> bool" where
  "translated e = (convertErr (Some e) = Some e)"

subsection \<open>The recursive delete as the specification words it\<close>

text \<open>
  Stat the target; not found is success; a target that is not a directory is removed
  directly; a directory is opened and every child is enumerated, \<open>.\<close> and \<open>..\<close>
  skipped, directory children removed recursively and children of every other type
  unlinked; only when all children are processed is the directory itself removed. The
  first failure is returned. \<open>remove\<close> is the recursive delete the children are handed
  to.

  The algorithm is written on the calls of the remote client alone: the stat is the
  remote \<open>Statx\<close>, not found is the not-found error of the remote client (or the
  generic one), a directory is a raw mode whose type nibble is \<open>S_IFDIR\<close>, and the
  direct removal is the remote \<open>Unlink\<close>, whose failure is returned as the Error
  Translator gives it.
\<close>

fun children_alg ::
  "nat \<Rightarrow> client \<Rightarrow> string \<Rightarrow> dh \<Rightarrow> (string \<Rightarrow> call list \<Rightarrow> (error option \<times> call list) option)
     \<Rightarrow> call list \<Rightarrow> (error option \<times> call list) option" where
  "children_alg 0 m path dir remove tr = None"
| "children_alg (Suc fuel) m path dir remove tr =
     (case cdir_ReadDir m dir tr of
        (Inl err, tr1) \<Rightarrow> Some (Some err, tr1)
      | (Inr None, tr1) \<Rightarrow> Some (None, tr1)
      | (Inr (Some de), tr1) \<Rightarrow>
          if pseudo (de_Name de) then children_alg fuel m path dir remove tr1
          else
            (case (if de_DType de = DTypeDir then remove (path @ ''/'' @ de_Name de) tr1
                   else Some (mount_Unlink m (path @ ''/'' @ de_Name de) tr1)) of
               None \<Rightarrow> None
             | Some (Some err, tr2) \<Rightarrow> Some (Some err, tr2)
             | Some (None, tr2) \<Rightarrow> children_alg fuel m path dir remove tr2))"

fun RemoveAll_alg :: "nat \<Rightarrow> client \<Rightarrow> string \<Rightarrow> call list \<Rightarrow> (error option \<times> call list) option" where
  "RemoveAll_alg 0 m path tr = None"
| "RemoveAll_alg (Suc fuel) m path tr =
     (case mount_Statx m path tr of
        (Inl err, tr1) \<Rightarrow>
          if Is_ceph_ErrNotExist err \<or> err = OsErrNotExist then Some (None, tr1)
          else Some (Some err, tr1)
      | (Inr stat, tr1) \<Rightarrow>
          if stx_Mode stat AND S_IFMT = S_IFDIR then
            (case mount_OpenDir m path tr1 of
               (Inl err, tr2) \<Rightarrow> Some (Some err, tr2)
             | (Inr dir, tr2) \<Rightarrow>
                 (case children_alg fuel m path dir (RemoveAll_alg fuel m) tr2 of
                    None \<Rightarrow> None
                  | Some (Some err, tr3) \<Rightarrow> Some (Some err, snd (cdir_Close m dir tr3))
                  | Some (None, tr3) \<Rightarrow>
                      (case mount_RemoveDir m path tr3 of
                         (err, tr4) \<Rightarrow> Some (err, snd (cdir_Close m dir tr4)))))
          else
            (case mount_Unlink m path tr1 of (err, tr2) \<Rightarrow> Some (convertErr err, tr2)))"

text \<open>
  The closure \<open>RemoveAll\<close> hands to \<open>forDirItem\<close>, with the recursive delete as the
  parameter \<open>remove\<close>.
\<close>

definition RemoveAll_callback ::
  "client \<Rightarrow> string \<Rightarrow> (string \<Rightarrow> call list \<Rightarrow> (error option \<times> call list) option)
     \<Rightarrow> DirEntry \<Rightarrow> call list \<Rightarrow> (error option \<times> call list) option" where
  "RemoveAll_callback m path remove =
     (\<lambda>de trc.
        if de_Name de = ''.'' \<or> de_Name de = ''..'' then Some (None, trc)
        else
          let fullPath = path @ ''/'' @ de_Name de in
          if de_DType de = DTypeDir then
            (case remove fullPath trc of
               None \<Rightarrow> None
             | Some (Some err, trd) \<Rightarrow> Some (Some err, trd)
             | Some (None, trd) \<Rightarrow> Some (None, trd))
          else if de_DType de = DTypeLnk \<or> de_DType de = DTypeReg then
            (case mount_Unlink m fullPath trc of
               (Some err, trd) \<Rightarrow>
                 Some (Some (Errorf (''failed to remove file '' @ fullPath @ '': '') err), trd)
             | (None, trd) \<Rightarrow> Some (None, trd))
          else
            (case mount_Unlink m fullPath trc of
               (Some err, trd) \<Rightarrow>
                 Some (Some (Errorf ''failed to remove unknown entry: '' err), trd)
             | (None, trd) \<Rightarrow> Some (None, trd)))"

text \<open>
  \<open>wraps outer inner\<close>: \<open>inner\<close> is \<open>outer\<close> or an error \<open>outer\<close> wraps. \<open>same_run\<close>
  compares a result of the code with a result of the algorithm: both did not return,
  or both returned after the same remote calls, both nil or both an error, the error
  of the code being the error of the algorithm or a wrapping of it.
\<close>

definition wraps :: "error \<Rightarrow> error \<Rightarrow> bool" where
  "wraps outer inner = (inner \<in> set (chain outer))"

definition same_run ::
  "(error option \<times> call list) option \<Rightarrow> (error option \<times> call list) option \<Rightarrow> bool" where
  "same_run code alg =
     (case code of
        None \<Rightarrow> alg = None
      | Some (None, tr) \<Rightarrow> alg = Some (None, tr)
      | Some (Some c, tr) \<Rightarrow>
          (case alg of
             Some (Some a, tr') \<Rightarrow> tr' = tr \<and> wraps c a
           | _ \<Rightarrow> False))"

text \<open>The calls that delete something.\<close>

fun deletes :: "call \<Rightarrow> bool" where
  "deletes (M_Unlink p) = True"
| "deletes (M_RemoveDir p) = True"
| "deletes c = False"

subsection \<open>Closing a handle\<close>

text \<open>
  The close call of every populated capability of a handle, the file first; and what
  the remote client answers to each of them in a run from the history \<open>tr\<close>
  (\<open>None\<close> for a capability that is nil, and for a close that succeeds).
\<close>

definition close_calls :: "File \<Rightarrow> call list" where
  "close_calls f =
     (case f_file f of None \<Rightarrow> [] | Some h \<Rightarrow> [F_Close h])
     @ (case f_dir f of None \<Rightarrow> [] | Some d \<Rightarrow> [D_Close d])"

definition file_close_failure :: "client \<Rightarrow> File \<Rightarrow> call list \<Rightarrow> error option" where
  "file_close_failure m f tr =
     (case f_file f of None \<Rightarrow> None | Some h \<Rightarrow> fst (cfile_Close m h tr))"

definition dir_close_failure :: "client \<Rightarrow> File \<Rightarrow> call list \<Rightarrow> error option" where
  "dir_close_failure m f tr =
     (case f_dir f of
        None \<Rightarrow> None
      | Some d \<Rightarrow>
          fst (cdir_Close m d (case f_file f of None \<Rightarrow> tr | Some h \<Rightarrow> snd (cfile_Close m h tr))))"

subsection \<open>A path that is not found\<close>

text \<open>The adapter's \<open>Stat\<close> of the path fails with an error that \<open>os.IsNotExist\<close> accepts.\<close>

definition reports_not_found :: "client \<Rightarrow> string \<Rightarrow> call list \<Rightarrow> bool" where
  "reports_not_found m path tr =
     (case fst (Fs_Stat m path tr) of Inl err \<Rightarrow> os_IsNotExist err | Inr stat \<Rightarrow> False)"

section \<open>A scripted client\<close>

text \<open>
  A client that answers the \<open>k\<close>-th call of a run with the \<open>k\<close>-th reply of a script,
  and with an error when the script has no reply of the right kind there. It gives the
  concrete runs the properties are instantiated on.
\<close>

datatype reply =
    R_err "error option"
  | R_open "error + fh"
  | R_opendir "error + dh"
  | R_statx "error + CephStatx"
  | R_entry "error + DirEntry option"
  | R_entryplus "error + DirEntryPlus option"
  | R_io "int \<times> bytes \<times> error option"

definition unscripted :: error where
  "unscripted = CephError False ''cephfs: ret=-5, Input/output error''"

definition scripted :: "reply list \<Rightarrow> client" where
  "scripted rs =
     \<lparr>on_err = (\<lambda>tr c. case drop (length tr) rs of R_err r # rest \<Rightarrow> r | _ \<Rightarrow> Some unscripted),
      on_open = (\<lambda>tr c. case drop (length tr) rs of R_open r # rest \<Rightarrow> r | _ \<Rightarrow> Inl unscripted),
      on_opendir = (\<lambda>tr c. case drop (length tr) rs of R_opendir r # rest \<Rightarrow> r | _ \<Rightarrow> Inl unscripted),
      on_statx = (\<lambda>tr c. case drop (length tr) rs of R_statx r # rest \<Rightarrow> r | _ \<Rightarrow> Inl unscripted),
      on_readdir = (\<lambda>tr c. case drop (length tr) rs of R_entry r # rest \<Rightarrow> r | _ \<Rightarrow> Inl unscripted),
      on_readdirplus = (\<lambda>tr c. case drop (length tr) rs of R_entryplus r # rest \<Rightarrow> r | _ \<Rightarrow> Inl unscripted),
      on_io = (\<lambda>tr c. case drop (length tr) rs of R_io r # rest \<Rightarrow> r | _ \<Rightarrow> (0, [], Some unscripted))\<rparr>"

definition dirStat :: CephStatx where
  "dirStat = \<lparr>stx_Size = 0, stx_Mode = 0x41ED, stx_Mtime_Sec = 0, stx_Mtime_Nsec = 0\<rparr>"

definition regStat :: CephStatx where
  "regStat = \<lparr>stx_Size = 3, stx_Mode = 0x81A4, stx_Mtime_Sec = 0, stx_Mtime_Nsec = 0\<rparr>"

definition entry :: "string \<Rightarrow> 8 word \<Rightarrow> DirEntry" where
  "entry name t = \<lparr>de_Name = name, de_DType = t\<rparr>"

definition entryPlus :: "string \<Rightarrow> 8 word \<Rightarrow> CephStatx \<Rightarrow> DirEntryPlus" where
  "entryPlus name t st = \<lparr>de_Name = name, de_DType = t, de_Statx = st\<rparr>"

text \<open>
  A run of the recursive delete on the directory \<open>/d\<close> that holds a regular file
  \<open>a\<close>, a directory \<open>s\<close> with a symlink \<open>l\<close> in it, and an entry \<open>u\<close> of unknown
  type: the replies of the remote client, and the calls the adapter makes. And a run
  in which the unlink of \<open>a\<close> is refused.
\<close>

definition tree_script :: "reply list" where
  "tree_script =
     [R_statx (Inr dirStat), R_opendir (Inr 1),
      R_entry (Inr (Some (entry ''.'' DTypeDir))),
      R_entry (Inr (Some (entry ''..'' DTypeDir))),
      R_entry (Inr (Some (entry ''a'' DTypeReg))), R_err None,
      R_entry (Inr (Some (entry ''s'' DTypeDir))),
      R_statx (Inr dirStat), R_opendir (Inr 2),
      R_entry (Inr (Some (entry ''l'' DTypeLnk))), R_err None,
      R_entry (Inr None), R_err None, R_err None,
      R_entry (Inr (Some (entry ''u'' 0))), R_err None,
      R_entry (Inr None), R_err None, R_err None]"

definition tree_calls :: "call list" where
  "tree_calls =
     [M_Statx ''/d'', M_OpenDir ''/d'', D_ReadDir 1, D_ReadDir 1, D_ReadDir 1,
      M_Unlink ''/d/a'', D_ReadDir 1, M_Statx ''/d/s'', M_OpenDir ''/d/s'', D_ReadDir 2,
      M_Unlink ''/d/s/l'', D_ReadDir 2, M_RemoveDir ''/d/s'', D_Close 2, D_ReadDir 1,
      M_Unlink ''/d/u'', D_ReadDir 1, M_RemoveDir ''/d'', D_Close 1]"

definition not_found :: error where
  "not_found = CephError True ''cephfs: ret=-2, No such file or directory''"

text \<open>
  A path the remote client reports as missing, twice; and a regular file that is
  unlinked and then reported as missing.
\<close>

definition gone_script :: "reply list" where
  "gone_script = [R_statx (Inl not_found), R_statx (Inl not_found)]"

definition file_script :: "reply list" where
  "file_script = [R_statx (Inr regStat), R_err None, R_statx (Inl not_found)]"

definition denied :: error where
  "denied = CephError False ''cephfs: ret=-13, Permission denied''"

text \<open>A regular file whose unlink is refused.\<close>

definition refused_file_script :: "reply list" where
  "refused_file_script = [R_statx (Inr regStat), R_err (Some denied)]"

definition refused_script :: "reply list" where
  "refused_script =
     [R_statx (Inr dirStat), R_opendir (Inr 1),
      R_entry (Inr (Some (entry ''a'' DTypeReg))), R_err (Some denied), R_err None]"

definition refused_calls :: "call list" where
  "refused_calls =
     [M_Statx ''/d'', M_OpenDir ''/d'', D_ReadDir 1, M_Unlink ''/d/a'', D_Close 1]"

text \<open>
  Runs in which one remote call fails: a regular file that is gone when it is
  unlinked; a directory that is gone when it is opened, in \<open>RemoveAll\<close> and in
  \<open>OpenFile\<close>; and an empty directory whose removal fails with the error the remote
  client gives for a path that exists.
\<close>

definition already :: error where
  "already = CephError False ''cephfs: ret=-17, File exists''"

definition vanished_file_script :: "reply list" where
  "vanished_file_script = [R_statx (Inr regStat), R_err (Some not_found)]"

definition vanished_dir_script :: "reply list" where
  "vanished_dir_script = [R_statx (Inr dirStat), R_opendir (Inl not_found)]"

definition open_dir_script :: "reply list" where
  "open_dir_script = [R_open (Inr 3), R_statx (Inr dirStat), R_opendir (Inl not_found)]"

definition kept_dir_script :: "reply list" where
  "kept_dir_script =
     [R_statx (Inr dirStat), R_opendir (Inr 1), R_entry (Inr None), R_err (Some already),
      R_err None]"

text \<open>
  Runs of the enumeration on the directory \<open>/d\<close>, whose stream is \<open>.\<close>, \<open>..\<close> and
  the regular file \<open>a\<close>: through the handle that embeds the remote file (a stat of the
  handle, the opening of the directory, then for every entry a read and the stat the
  transform of \<open>Readdir\<close> makes, and the deferred close), for a first page of one entry
  and for the whole directory; and through the handle with a directory capability.
\<close>

definition embedded_d :: EFile where
  "embedded_d = \<lparr>ef_File = 3, ef_path = ''/d''\<rparr>"

definition handle_d :: File where
  "handle_d = \<lparr>f_path = ''/d'', f_file = Some 3, f_dir = Some 1\<rparr>"

definition first_page_script :: "reply list" where
  "first_page_script =
     [R_statx (Inr dirStat), R_opendir (Inr 1),
      R_entry (Inr (Some (entry ''.'' DTypeDir))), R_statx (Inr dirStat),
      R_err None]"

definition whole_dir_script :: "reply list" where
  "whole_dir_script =
     [R_statx (Inr dirStat), R_opendir (Inr 1),
      R_entry (Inr (Some (entry ''.'' DTypeDir))), R_statx (Inr dirStat),
      R_entry (Inr (Some (entry ''..'' DTypeDir))), R_statx (Inr dirStat),
      R_entry (Inr (Some (entry ''a'' DTypeReg))), R_statx (Inr regStat),
      R_entry (Inr None), R_err None]"

definition plus_script :: "reply list" where
  "plus_script =
     [R_entryplus (Inr (Some (entryPlus ''.'' DTypeDir dirStat))),
      R_entryplus (Inr (Some (entryPlus ''..'' DTypeDir dirStat))),
      R_entryplus (Inr (Some (entryPlus ''a'' DTypeReg regStat))),
      R_entryplus (Inr None)]"

text \<open>
  Runs in which the enumeration fails: the read after \<open>.\<close> and \<open>a\<close> fails (handle with
  a directory capability); the read after \<open>a\<close> fails, and the stat of the second entry
  \<open>b\<close> fails in the transform (handle that embeds the remote file).
\<close>

definition failing_plus_script :: "reply list" where
  "failing_plus_script =
     [R_entryplus (Inr (Some (entryPlus ''.'' DTypeDir dirStat))),
      R_entryplus (Inr (Some (entryPlus ''a'' DTypeReg regStat))),
      R_entryplus (Inl denied)]"

definition failing_read_script :: "reply list" where
  "failing_read_script =
     [R_statx (Inr dirStat), R_opendir (Inr 1),
      R_entry (Inr (Some (entry ''a'' DTypeReg))), R_entry (Inl denied), R_err None]"

definition failing_stat_script :: "reply list" where
  "failing_stat_script =
     [R_statx (Inr dirStat), R_opendir (Inr 1),
      R_entry (Inr (Some (entry ''a'' DTypeReg))), R_statx (Inr regStat),
      R_entry (Inr (Some (entry ''b'' DTypeReg))), R_statx (Inl denied), R_err None]"

text \<open>The transforms \<open>Readdirnames\<close> and \<open>Readdir\<close> hand to \<open>listFromDir\<close>.\<close>

definition name_callback :: "DirEntry \<Rightarrow> call list \<Rightarrow> (error + string) \<times> call list" where
  "name_callback = (\<lambda>de trc. (Inr (de_Name de), trc))"

definition statx_callback :: "client \<Rightarrow> EFile \<Rightarrow> DirEntry \<Rightarrow> call list \<Rightarrow> (error + FileInfo) \<times> call list" where
  "statx_callback m f =
     (\<lambda>de trc.
        let fullPath = ef_path f @ ''/'' @ de_Name de in
        case mount_Statx m fullPath trc of
          (Inl err, trd) \<Rightarrow>
            (Inl (Errorf (''failed to statx file '' @ fullPath @ '': '') err), trd)
        | (Inr stat, trd) \<Rightarrow> (Inr \<lparr>info_stat = stat, info_path = fullPath\<rparr>, trd))"

section \<open>Properties of the Mode Translator\<close>

lemmas syscall_defs =
  S_IFMT_def S_IFBLK_def S_IFCHR_def S_IFDIR_def S_IFIFO_def S_IFLNK_def S_IFREG_def
  S_IFSOCK_def S_ISGID_def S_ISUID_def S_ISVTX_def

lemmas FileMode_defs =
  ModeDir_def ModeSymlink_def ModeDevice_def ModeNamedPipe_def ModeSocket_def
  ModeSetuid_def ModeSetgid_def ModeCharDevice_def ModeSticky_def ModeIrregular_def
  ModePerm_def ModeType_def

lemma perm_mask: "(0x1FF :: 'a::len word) = mask 9"
  by (simp add: mask_eq_exp_minus_1)

lemma and_exp_neq_0: "(w AND 2 ^ n \<noteq> 0) = bit w n" for w :: "'a::len word"
  by (simp add: and_exp_eq_0_iff_not_bit)

lemma raw_flag_bits:
  "S_ISGID = 2 ^ 10" "S_ISUID = 2 ^ 11" "S_ISVTX = 2 ^ 9"
  by (simp_all add: syscall_defs)

lemma bit_flag: "bit ((2::32 word) ^ k) n = (n = k \<and> k < 32)"
  by (auto simp add: bit_exp_iff)

lemma bit_typeFlags:
  "bit (typeFlags t) n \<Longrightarrow> n = 21 \<or> n = 24 \<or> n = 25 \<or> n = 26 \<or> n = 27 \<or> n = 31"
  unfolding typeFlags_def FileMode_defs
  by (simp only: bit_or_iff bit_flag split: if_splits) auto

text \<open>The bits of the translated mode, one by one.\<close>

lemma bit_toFileMode:
  "bit (toFileMode m) n =
     (n < 9 \<and> bit m n \<or> bit (typeFlags (m AND S_IFMT)) n
      \<or> n = 22 \<and> bit m 10 \<or> n = 23 \<and> bit m 11 \<or> n = 20 \<and> bit m 9)"
  unfolding toFileMode_def Let_def raw_flag_bits and_exp_neq_0 perm_mask
    ModeSetgid_def ModeSetuid_def ModeSticky_def
  by (auto simp add: bit_simps bit_flag simp del: power_numeral)

lemma toFileMode_perm: "toFileMode m AND ModePerm = ucast (m AND 0x1FF)"
  unfolding ModePerm_def perm_mask
  by (rule bit_eqI) (auto simp add: bit_simps bit_toFileMode dest: bit_typeFlags)

lemma toFileMode_type: "toFileMode m AND ModeType = typeFlags (m AND S_IFMT)"
  unfolding FileMode_defs
  apply (rule bit_eqI)
  apply (simp only: bit_and_iff bit_or_iff bit_flag bit_toFileMode)
  apply (auto dest: bit_typeFlags)
  done

lemma toFileMode_setuid: "(toFileMode m AND ModeSetuid \<noteq> 0) = (m AND S_ISUID \<noteq> 0)"
  unfolding ModeSetuid_def raw_flag_bits and_exp_neq_0 bit_toFileMode
  by (auto dest: bit_typeFlags)

lemma toFileMode_setgid: "(toFileMode m AND ModeSetgid \<noteq> 0) = (m AND S_ISGID \<noteq> 0)"
  unfolding ModeSetgid_def raw_flag_bits and_exp_neq_0 bit_toFileMode
  by (auto dest: bit_typeFlags)

lemma toFileMode_sticky: "(toFileMode m AND ModeSticky \<noteq> 0) = (m AND S_ISVTX \<noteq> 0)"
  unfolding ModeSticky_def raw_flag_bits and_exp_neq_0 bit_toFileMode
  by (auto dest: bit_typeFlags)

lemma typeFlags_table:
  "typeFlags t =
     (if t = S_IFDIR then ModeDir
      else if t = S_IFCHR then ModeDevice OR ModeCharDevice
      else if t = S_IFBLK then ModeDevice
      else if t = S_IFIFO then ModeNamedPipe
      else if t = S_IFLNK then ModeSymlink
      else if t = S_IFSOCK then ModeSocket
      else 0)"
  by (simp add: typeFlags_def syscall_defs)

lemma flags_set_values:
  "flags_set 0 = []"
  "flags_set ModeDir = [ModeDir]"
  "flags_set (ModeDevice OR ModeCharDevice) = [ModeDevice, ModeCharDevice]"
  "flags_set ModeDevice = [ModeDevice]"
  "flags_set ModeNamedPipe = [ModeNamedPipe]"
  "flags_set ModeSymlink = [ModeSymlink]"
  "flags_set ModeSocket = [ModeSocket]"
  by (simp_all add: flags_set_def type_flags_def FileMode_defs)

lemma type_flag_in: "flag \<in> set type_flags \<Longrightarrow> ModeType AND flag = flag"
  unfolding type_flags_def FileMode_defs by auto

lemma flags_set_type: "flags_set fm = flags_set (fm AND ModeType)"
  unfolding flags_set_def
  by (rule filter_cong) (simp_all add: and.assoc type_flag_in)

lemma toFileMode_flags_set:
  "flags_set (toFileMode m) =
       (if m AND S_IFMT = S_IFDIR then [ModeDir]
        else if m AND S_IFMT = S_IFCHR then [ModeDevice, ModeCharDevice]
        else if m AND S_IFMT = S_IFBLK then [ModeDevice]
        else if m AND S_IFMT = S_IFIFO then [ModeNamedPipe]
        else if m AND S_IFMT = S_IFLNK then [ModeSymlink]
        else if m AND S_IFMT = S_IFSOCK then [ModeSocket]
        else [])"
  unfolding flags_set_type [of "toFileMode m"] toFileMode_type typeFlags_table
  by (simp add: flags_set_values)

text \<open>
  A character device with permissions \<open>0644\<close> (raw mode \<open>0x21A4\<close>): its translated
  mode has two type flags set, \<open>ModeDevice\<close> and \<open>ModeCharDevice\<close>, not one.
\<close>

theorem chardev_two_type_flags:
  "0x21A4 AND S_IFMT = S_IFCHR
   \<and> flags_set (toFileMode 0x21A4) = [ModeDevice, ModeCharDevice]
   \<and> length (flags_set (toFileMode 0x21A4)) \<noteq> 1"
  using toFileMode_flags_set [of "0x21A4"] by (simp add: syscall_defs)

text \<open>
  C5, amended. For every 16-bit raw mode \<open>m\<close>: the permission bits of \<open>toFileMode m\<close>
  are \<open>m & 0777\<close>; the type flags of the result are a function of the type nibble of
  \<open>m\<close> alone: none for a regular file and for a nibble that is no POSIX type, the one
  flag of its type for a directory, a block device, a named pipe, a symlink and a
  socket, and the two flags \<open>ModeDevice\<close> and \<open>ModeCharDevice\<close> for a character
  device; and setuid, setgid and sticky are set exactly when the bit of \<open>m\<close> is,
  whatever the nibble.
\<close>

theorem toFileMode_translates:
  "toFileMode m AND ModePerm = ucast (m AND 0x1FF)
   \<and> flags_set (toFileMode m) =
       (if m AND S_IFMT = S_IFDIR then [ModeDir]
        else if m AND S_IFMT = S_IFCHR then [ModeDevice, ModeCharDevice]
        else if m AND S_IFMT = S_IFBLK then [ModeDevice]
        else if m AND S_IFMT = S_IFIFO then [ModeNamedPipe]
        else if m AND S_IFMT = S_IFLNK then [ModeSymlink]
        else if m AND S_IFMT = S_IFSOCK then [ModeSocket]
        else [])
   \<and> toFileMode m AND ModeType =
       (if m AND S_IFMT = S_IFDIR then ModeDir
        else if m AND S_IFMT = S_IFCHR then ModeDevice OR ModeCharDevice
        else if m AND S_IFMT = S_IFBLK then ModeDevice
        else if m AND S_IFMT = S_IFIFO then ModeNamedPipe
        else if m AND S_IFMT = S_IFLNK then ModeSymlink
        else if m AND S_IFMT = S_IFSOCK then ModeSocket
        else 0)
   \<and> (toFileMode m AND ModeSetuid \<noteq> 0) = (m AND S_ISUID \<noteq> 0)
   \<and> (toFileMode m AND ModeSetgid \<noteq> 0) = (m AND S_ISGID \<noteq> 0)
   \<and> (toFileMode m AND ModeSticky \<noteq> 0) = (m AND S_ISVTX \<noteq> 0)"
  using toFileMode_perm [of m] toFileMode_type [of m] typeFlags_table [of "m AND S_IFMT"]
    toFileMode_setuid [of m] toFileMode_setgid [of m] toFileMode_sticky [of m]
    toFileMode_flags_set [of m]
  by simp

text \<open>
  A setuid character device with permissions \<open>0644\<close> (raw mode \<open>0x29A4\<close>) and a
  directory with permissions \<open>0755\<close> (raw mode \<open>0x41ED\<close>).
\<close>

theorem toFileMode_translates_witness:
  "toFileMode 0x29A4 AND ModePerm = 0x1A4
   \<and> flags_set (toFileMode 0x29A4) = [ModeDevice, ModeCharDevice]
   \<and> toFileMode 0x29A4 AND ModeSetuid \<noteq> 0
   \<and> flags_set (toFileMode 0x41ED) = [ModeDir]
   \<and> toFileMode 0x41ED AND ModeSetuid = 0"
  using toFileMode_translates [of "0x29A4"] toFileMode_translates [of "0x41ED"]
  by (simp add: syscall_defs)

text \<open>
  The directory test of the code on the raw mode: the translated mode has \<open>ModeDir\<close>
  exactly when the type nibble is \<open>S_IFDIR\<close>.
\<close>

lemma bit_typeFlags_dir: "bit (typeFlags t) 31 = (t = S_IFDIR)"
  unfolding typeFlags_def FileMode_defs
  by (simp only: bit_or_iff bit_flag split: if_splits) (simp add: syscall_defs)

lemma IsDir_toFileMode: "IsDir (toFileMode mode) = (mode AND S_IFMT = S_IFDIR)"
  unfolding IsDir_def ModeDir_def and_exp_neq_0 bit_toFileMode
  by (simp add: bit_typeFlags_dir)

section \<open>Properties of the Error Translator\<close>

text \<open>\<open>HasPrefix\<close> and \<open>Contains\<close> are the prefix and the substring relation.\<close>

lemma HasPrefix_iff: "HasPrefix s p = (\<exists>post. s = p @ post)"
  by (induction s p rule: HasPrefix.induct) auto

lemma Contains_iff: "Contains s sub = (\<exists>pre post. s = pre @ sub @ post)"
proof (induction s)
  case Nil
  then show ?case by auto
next
  case (Cons c cs)
  show ?case
  proof
    assume "Contains (c # cs) sub"
    then consider "HasPrefix (c # cs) sub" | "Contains cs sub" by auto
    then show "\<exists>pre post. c # cs = pre @ sub @ post"
    proof cases
      case 1
      then obtain post where "c # cs = sub @ post" by (auto simp: HasPrefix_iff)
      then have "c # cs = [] @ sub @ post" by simp
      then show ?thesis by blast
    next
      case 2
      then obtain pre post where "cs = pre @ sub @ post" using Cons.IH by auto
      then have "c # cs = (c # pre) @ sub @ post" by simp
      then show ?thesis by blast
    qed
  next
    assume "\<exists>pre post. c # cs = pre @ sub @ post"
    then obtain pre post where e: "c # cs = pre @ sub @ post" by auto
    show "Contains (c # cs) sub"
    proof (cases pre)
      case Nil
      then have "HasPrefix (c # cs) sub" using e by (auto simp: HasPrefix_iff)
      then show ?thesis by simp
    next
      case (Cons a pre')
      then have "cs = pre' @ sub @ post" using e by simp
      then have "Contains cs sub" using Cons.IH by blast
      then show ?thesis by simp
    qed
  qed
qed

text \<open>
  C3. \<open>convertErr\<close> of nil is nil; an error that matches the remote client's
  not-found error becomes the generic not-found error, whatever its text; an error
  that does not, and whose text contains \<open>ret=-17\<close>, becomes the generic
  already-exists error; every other error is returned as it is.
\<close>

theorem convertErr_rules:
  "convertErr None = None
   \<and> (Is_ceph_ErrNotExist e \<longrightarrow> convertErr (Some e) = Some OsErrNotExist)
   \<and> (\<not> Is_ceph_ErrNotExist e \<and> Contains (Error e) ''ret=-17''
        \<longrightarrow> convertErr (Some e) = Some OsErrExist)
   \<and> (\<not> Is_ceph_ErrNotExist e \<and> \<not> Contains (Error e) ''ret=-17''
        \<longrightarrow> convertErr (Some e) = Some e)"
  by simp

text \<open>
  The three rules on errors of the remote client, and the order of the first two on an
  error that matches both.
\<close>

theorem convertErr_rules_witness:
  "convertErr (Some (CephError True ''cephfs: ret=-2, No such file or directory'')) = Some OsErrNotExist
   \<and> convertErr (Some (CephError False ''cephfs: ret=-17, File exists'')) = Some OsErrExist
   \<and> convertErr (Some (CephError False ''cephfs: ret=-13, Permission denied''))
       = Some (CephError False ''cephfs: ret=-13, Permission denied'')
   \<and> convertErr (Some (Errorf ''ret=-17: '' (CephError True ''cephfs: ret=-2, No such file or directory'')))
       = Some OsErrNotExist"
  using convertErr_rules [of "CephError True ''cephfs: ret=-2, No such file or directory''"]
    convertErr_rules [of "CephError False ''cephfs: ret=-17, File exists''"]
    convertErr_rules [of "CephError False ''cephfs: ret=-13, Permission denied''"]
    convertErr_rules [of "Errorf ''ret=-17: '' (CephError True ''cephfs: ret=-2, No such file or directory'')"]
  by simp

section \<open>Properties of the Handle Adapter\<close>

lemmas remote_defs =
  invoke_def mount_Open_def mount_MakeDir_def mount_MakeDirs_def mount_OpenDir_def
  mount_Unlink_def mount_RemoveDir_def mount_Rename_def mount_Statx_def mount_Chmod_def
  mount_Chown_def cfile_Close_def cfile_Read_def cfile_ReadAt_def cfile_Write_def
  cfile_WriteAt_def cfile_Seek_def cfile_Fstatx_def cfile_Sync_def cfile_Truncate_def
  cdir_ReadDir_def cdir_ReadDirPlus_def cdir_Close_def

text \<open>
  C6. On a handle whose file capability is nil, each of \<open>Read\<close>, \<open>ReadAt\<close>,
  \<open>Write\<close>, \<open>WriteAt\<close>, \<open>Seek\<close>, \<open>Stat\<close>, \<open>Sync\<close>, \<open>Truncate\<close> and
  \<open>WriteString\<close> returns \<open>ErrFileNil\<close> (with a zero count, and the buffer untouched),
  and the history of remote calls is the one before the call: the remote client is not
  invoked.
\<close>

theorem nil_file_handle:
  "f_file f = None \<Longrightarrow>
     File_Read m f buf tr = ((0, buf, Some ErrFileNil), tr)
     \<and> File_ReadAt m f buf off tr = ((0, buf, Some ErrFileNil), tr)
     \<and> File_Write m f buf tr = ((0, Some ErrFileNil), tr)
     \<and> File_WriteAt m f buf off tr = ((0, Some ErrFileNil), tr)
     \<and> File_Seek m f off whence tr = ((0, Some ErrFileNil), tr)
     \<and> File_Stat m f tr = (Inl ErrFileNil, tr)
     \<and> File_Sync m f tr = (Some ErrFileNil, tr)
     \<and> File_Truncate m f sz tr = (Some ErrFileNil, tr)
     \<and> File_WriteString m f s tr = ((0, Some ErrFileNil), tr)"
  by (simp add: File_Read_def File_ReadAt_def File_Write_def File_WriteAt_def File_Seek_def
      File_Stat_def File_Sync_def File_Truncate_def File_WriteString_def)

text \<open>A directory-only handle.\<close>

theorem nil_file_handle_witness:
  "File_Read (scripted []) \<lparr>f_path = ''/d'', f_file = None, f_dir = Some 1\<rparr> [0, 0] []
     = ((0, [0, 0], Some ErrFileNil), [])
   \<and> File_Stat (scripted []) \<lparr>f_path = ''/d'', f_file = None, f_dir = Some 1\<rparr> []
     = (Inl ErrFileNil, [])
   \<and> File_WriteString (scripted []) \<lparr>f_path = ''/d'', f_file = None, f_dir = Some 1\<rparr> ''abc'' []
     = ((0, Some ErrFileNil), [])"
  using nil_file_handle [where f = "\<lparr>f_path = ''/d'', f_file = None, f_dir = Some 1\<rparr>"
      and m = "scripted []" and buf = "[0, 0]" and tr = "[]" and s = "''abc''"]
  by simp

section \<open>Properties of the Directory Enumeration Engine\<close>

lemma foldl_append_map: "foldl (\<lambda>list item. list @ [g item]) acc xs = acc @ map g xs"
  by (induction xs arbitrary: acc) auto

lemma list_all2_fun: "list_all2 (\<lambda>x y. y = g x) xs ys = (ys = map g xs)"
  by (induction xs arbitrary: ys) (auto simp add: list_all2_Cons1)

text \<open>
  \<open>filepath.Base\<close> computes the base name: it is the one name that is the base name
  of the path.
\<close>

lemma Base_slashes:
  assumes "path \<noteq> []" "set path \<subseteq> {CHR ''/''}"
  shows "Base path = ''/''"
proof -
  have d: "dropWhile (\<lambda>c. c = CHR ''/'') (rev path) = []"
    using assms(2) by auto
  show ?thesis unfolding Base_def Let_def d using assms(1) by simp
qed

lemma Base_element:
  assumes "name \<noteq> []" "CHR ''/'' \<notin> set name" "set slashes \<subseteq> {CHR ''/''}"
    "pre = [] \<or> last pre = CHR ''/''"
  shows "Base (pre @ name @ slashes) = name"
proof -
  obtain c cs where r: "rev name = c # cs" using assms(1) by (cases "rev name") auto
  have c: "c \<noteq> CHR ''/''" using assms(2) r by (metis list.set_intros(1) set_rev)
  have d: "dropWhile (\<lambda>c. c = CHR ''/'') (rev slashes @ rev name @ rev pre) = rev name @ rev pre"
  proof -
    have "dropWhile (\<lambda>c. c = CHR ''/'') (rev slashes @ (rev name @ rev pre))
        = dropWhile (\<lambda>c. c = CHR ''/'') (rev name @ rev pre)"
      using assms(3) by (intro dropWhile_append2) auto
    then show ?thesis using r c by simp
  qed
  have t: "takeWhile (\<lambda>c. c \<noteq> CHR ''/'') (rev name @ rev pre) = rev name"
  proof -
    have "takeWhile (\<lambda>c. c \<noteq> CHR ''/'') (rev name @ rev pre)
        = rev name @ takeWhile (\<lambda>c. c \<noteq> CHR ''/'') (rev pre)"
      using assms(2) by (intro takeWhile_append2) auto
    moreover have "takeWhile (\<lambda>c. c \<noteq> CHR ''/'') (rev pre) = []"
    proof (cases "pre = []")
      case True
      then show ?thesis by simp
    next
      case False
      then have "last pre = CHR ''/''" using assms(4) by simp
      then have "hd (rev pre) = CHR ''/''" using False by (simp add: hd_rev)
      then show ?thesis using False by (cases "rev pre") auto
    qed
    ultimately show ?thesis by simp
  qed
  show ?thesis using assms(1) by (simp add: Base_def d t)
qed

lemma Base_is_element:
  assumes "\<not> set path \<subseteq> {CHR ''/''}"
  shows "Base path \<noteq> [] \<and> CHR ''/'' \<notin> set (Base path)
         \<and> (\<exists>pre slashes. path = pre @ Base path @ slashes
                \<and> set slashes \<subseteq> {CHR ''/''}
                \<and> (pre = [] \<or> last pre = CHR ''/''))"
proof -
  define rs where "rs = dropWhile (\<lambda>c. c = CHR ''/'') (rev path)"
  define slashes where "slashes = rev (takeWhile (\<lambda>c. c = CHR ''/'') (rev path))"
  define name where "name = rev (takeWhile (\<lambda>c. c \<noteq> CHR ''/'') rs)"
  define pre where "pre = rev (dropWhile (\<lambda>c. c \<noteq> CHR ''/'') rs)"
  have ne: "path \<noteq> []" using assms by auto
  have rs: "rs \<noteq> []"
    using assms unfolding rs_def by auto
  have "hd rs \<noteq> CHR ''/''"
    using rs hd_dropWhile [of "\<lambda>c. c = CHR ''/''" "rev path"] unfolding rs_def by simp
  then have name: "name \<noteq> []" using rs unfolding name_def by (cases rs) auto
  have ns: "CHR ''/'' \<notin> set name"
    unfolding name_def using set_takeWhileD [of "CHR ''/''" "\<lambda>c. c \<noteq> CHR ''/''" rs] by auto
  have sl: "set slashes \<subseteq> {CHR ''/''}"
    unfolding slashes_def using set_takeWhileD [of _ "\<lambda>c. c = CHR ''/''" "rev path"] by auto
  have "rev path = rev slashes @ rs"
    unfolding slashes_def rs_def by simp
  moreover have "rs = rev name @ rev pre"
    unfolding name_def pre_def by simp
  ultimately have "rev path = rev (pre @ name @ slashes)" by simp
  then have path: "path = pre @ name @ slashes" using rev_is_rev_conv by blast
  have pre: "pre = [] \<or> last pre = CHR ''/''"
  proof (cases "pre = []")
    case True
    then show ?thesis by simp
  next
    case False
    then have d: "dropWhile (\<lambda>c. c \<noteq> CHR ''/'') rs \<noteq> []" unfolding pre_def by simp
    have "last pre = hd (dropWhile (\<lambda>c. c \<noteq> CHR ''/'') rs)"
      unfolding pre_def using d by (simp add: last_rev)
    then show ?thesis using hd_dropWhile [OF d] by simp
  qed
  have "Base path = name"
    using ne name unfolding Base_def Let_def name_def rs_def by simp
  then show ?thesis using name ns path sl pre by blast
qed

lemma base_name_iff: "base_name path name = (name = Base path)"
proof (cases "path = []")
  case True
  then show ?thesis by (simp add: base_name_def Base_def)
next
  case ne: False
  show ?thesis
  proof (cases "set path \<subseteq> {CHR ''/''}")
    case True
    have "base_name path name = (name = ''/'')"
      using ne True by (simp only: base_name_def if_False if_True)
    then show ?thesis by (simp only: Base_slashes [OF ne True])
  next
    case False
    have unfold: "base_name path x =
        (x \<noteq> [] \<and> CHR ''/'' \<notin> set x
         \<and> (\<exists>pre slashes. path = pre @ x @ slashes
                \<and> set slashes \<subseteq> {CHR ''/''}
                \<and> (pre = [] \<or> last pre = CHR ''/'')))" for x
      using ne False by (simp only: base_name_def if_False)
    show ?thesis
    proof
      assume "base_name path name"
      then obtain pre slashes where n: "name \<noteq> []" "CHR ''/'' \<notin> set name"
        "set slashes \<subseteq> {CHR ''/''}" "pre = [] \<or> last pre = CHR ''/''"
        and p: "path = pre @ name @ slashes"
        unfolding unfold by blast
      have "Base (pre @ name @ slashes) = name" using n by (rule Base_element)
      then show "name = Base path" unfolding p by (rule sym)
    next
      assume n: "name = Base path"
      show "base_name path name"
        unfolding n unfold by (rule Base_is_element [OF False])
    qed
  qed
qed

text \<open>
  C10. \<open>Readdirnames n\<close> on a handle returns exactly the base names of the metadata
  records that \<open>Readdir n\<close> returns on the same handle in the same state: whenever
  \<open>Readdir\<close> returns, \<open>Readdirnames\<close> returns too, with the same error (the
  end-of-stream signal included) and the same remote calls, and its list has, record
  for record and in the same order, the base name of the path of the record; no other
  list of names has. It does not return when \<open>Readdir\<close> does not.
\<close>

theorem Readdirnames_of_Readdir:
  "(File_Readdir fuel m f n tr = None \<longrightarrow> File_Readdirnames fuel m f n tr = None)
   \<and> (\<forall>infos err tr1. File_Readdir fuel m f n tr = Some ((infos, err), tr1) \<longrightarrow>
        (\<exists>names. File_Readdirnames fuel m f n tr = Some ((names, err), tr1)
           \<and> list_all2 (\<lambda>info name. base_name (info_path info) name) infos names
           \<and> (\<forall>others. list_all2 (\<lambda>info name. base_name (info_path info) name) infos others
                 \<longrightarrow> others = names)))"
proof (cases "File_Readdir fuel m f n tr")
  case None
  then show ?thesis by (simp add: File_Readdirnames_def)
next
  case (Some r)
  obtain infos err tr1 where r: "r = ((infos, err), tr1)" by (cases r) auto
  have names: "File_Readdirnames fuel m f n tr
      = Some ((map (\<lambda>info. Base (info_path info)) infos, err), tr1)"
    using Some r by (simp add: File_Readdirnames_def foldl_append_map FileInfo_Name_def)
  have "list_all2 (\<lambda>info name. base_name (info_path info) name) infos others
      = (others = map (\<lambda>info. Base (info_path info)) infos)" for others
    by (simp add: base_name_iff list_all2_fun)
  then show ?thesis using Some r names by simp
qed

text \<open>
  On the directory \<open>/d\<close> with the entries \<open>.\<close>, \<open>..\<close> and \<open>a\<close>: asked for five names
  the call reads to the end of the stream and returns the name \<open>a\<close> of the record
  \<open>/d/a\<close> with the end-of-stream signal; asked for one name it returns \<open>a\<close> and no
  error after three reads; and on a handle without a directory capability it returns
  the error of \<open>Readdir\<close> and no name.
\<close>

lemma Readdir_to_the_end:
  "File_Readdir 5 (scripted plus_script) handle_d 5 []
     = Some (([\<lparr>info_stat = regStat, info_path = ''/d/a''\<rparr>], Some IoEOF),
             [D_ReadDirPlus 1, D_ReadDirPlus 1, D_ReadDirPlus 1, D_ReadDirPlus 1])"
  by code_simp

lemma Readdir_one:
  "File_Readdir 5 (scripted plus_script) handle_d 1 []
     = Some (([\<lparr>info_stat = regStat, info_path = ''/d/a''\<rparr>], None),
             [D_ReadDirPlus 1, D_ReadDirPlus 1, D_ReadDirPlus 1])"
  by code_simp

lemma Readdir_no_dir:
  "File_Readdir 5 (scripted plus_script) \<lparr>f_path = ''/d'', f_file = Some 3, f_dir = None\<rparr> 1 []
     = Some (([], Some ErrDirNil), [])"
  by code_simp

lemma base_name_a: "base_name ''/d/a'' name = (name = ''a'')"
proof -
  have "Base ''/d/a'' = ''a''" by code_simp
  then show ?thesis by (simp add: base_name_iff)
qed

theorem Readdirnames_of_Readdir_witness:
  "File_Readdirnames 5 (scripted plus_script) handle_d 5 []
     = Some (([''a''], Some IoEOF),
             [D_ReadDirPlus 1, D_ReadDirPlus 1, D_ReadDirPlus 1, D_ReadDirPlus 1])
   \<and> File_Readdirnames 5 (scripted plus_script) handle_d 1 []
     = Some (([''a''], None), [D_ReadDirPlus 1, D_ReadDirPlus 1, D_ReadDirPlus 1])
   \<and> File_Readdirnames 5 (scripted plus_script)
        \<lparr>f_path = ''/d'', f_file = Some 3, f_dir = None\<rparr> 1 []
     = Some (([], Some ErrDirNil), [])
   \<and> File_Readdirnames 0 (scripted plus_script) handle_d 1 [] = None"
proof -
  have 1: "File_Readdirnames 5 (scripted plus_script) handle_d 5 []
     = Some (([''a''], Some IoEOF),
             [D_ReadDirPlus 1, D_ReadDirPlus 1, D_ReadDirPlus 1, D_ReadDirPlus 1])"
    using Readdirnames_of_Readdir [of 5 "scripted plus_script" handle_d 5 "[]", THEN conjunct2]
    by (auto simp add: Readdir_to_the_end list_all2_Cons1 base_name_a)
  have 2: "File_Readdirnames 5 (scripted plus_script) handle_d 1 []
     = Some (([''a''], None), [D_ReadDirPlus 1, D_ReadDirPlus 1, D_ReadDirPlus 1])"
    using Readdirnames_of_Readdir [of 5 "scripted plus_script" handle_d 1 "[]", THEN conjunct2]
    by (auto simp add: Readdir_one list_all2_Cons1 base_name_a)
  have 3: "File_Readdirnames 5 (scripted plus_script)
        \<lparr>f_path = ''/d'', f_file = Some 3, f_dir = None\<rparr> 1 []
     = Some (([], Some ErrDirNil), [])"
    using Readdirnames_of_Readdir
      [of 5 "scripted plus_script" "\<lparr>f_path = ''/d'', f_file = Some 3, f_dir = None\<rparr>" 1 "[]",
        THEN conjunct2]
    by (auto simp add: Readdir_no_dir)
  have "File_Readdir 0 (scripted plus_script) handle_d 1 [] = None" by code_simp
  then have 4: "File_Readdirnames 0 (scripted plus_script) handle_d 1 [] = None"
    using Readdirnames_of_Readdir [of 0 "scripted plus_script" handle_d 1 "[]", THEN conjunct1]
    by simp
  show ?thesis using 1 2 3 4 by blast
qed

section \<open>Closing a handle\<close>

lemma chain_self: "e \<in> set (chain e)"
  by (cases e) auto

text \<open>
  C4. \<open>Close\<close> calls the close of every populated capability, the file first and
  then the directory, whatever the first close answers; it returns nil when no close
  fails, the failure when one fails, and when both fail one error that wraps both
  failures.
\<close>

theorem File_Close_aggregates:
  "snd (File_Close m f tr) = tr @ close_calls f
   \<and> fst (File_Close m f tr) =
       (case (file_close_failure m f tr, dir_close_failure m f tr) of
          (None, None) \<Rightarrow> None
        | (Some e, None) \<Rightarrow> Some e
        | (None, Some e) \<Rightarrow> Some e
        | (Some e1, Some e2) \<Rightarrow>
            Some (Errorf2 ''failed to close file for reasons; '' e1 ''; '' e2))
   \<and> (\<forall>e1 e2. file_close_failure m f tr = Some e1 \<and> dir_close_failure m f tr = Some e2 \<longrightarrow>
         (\<exists>c. fst (File_Close m f tr) = Some c \<and> e1 \<in> set (chain c) \<and> e2 \<in> set (chain c)))"
  by (auto simp add: File_Close_def close_calls_def file_close_failure_def
      dir_close_failure_def cfile_Close_def cdir_Close_def invoke_def chain_self
      split: option.splits)

text \<open>
  A handle with both capabilities: both closes fail; and the file close fails while
  the directory close succeeds, and is made all the same.
\<close>

theorem File_Close_aggregates_witness:
  "File_Close (scripted [R_err (Some (CephError False ''cephfs: ret=-9, Bad file descriptor'')),
                         R_err (Some (CephError False ''cephfs: ret=-5, Input/output error''))])
     \<lparr>f_path = ''/d'', f_file = Some 3, f_dir = Some 4\<rparr> []
   = (Some (Errorf2 ''failed to close file for reasons; ''
              (CephError False ''cephfs: ret=-9, Bad file descriptor'') ''; ''
              (CephError False ''cephfs: ret=-5, Input/output error'')),
      [F_Close 3, D_Close 4])
   \<and> File_Close (scripted [R_err (Some (CephError False ''cephfs: ret=-9, Bad file descriptor'')),
                         R_err None])
     \<lparr>f_path = ''/d'', f_file = Some 3, f_dir = Some 4\<rparr> []
   = (Some (CephError False ''cephfs: ret=-9, Bad file descriptor''), [F_Close 3, D_Close 4])"
  using File_Close_aggregates [of "scripted [R_err (Some (CephError False ''cephfs: ret=-9, Bad file descriptor'')),
                         R_err (Some (CephError False ''cephfs: ret=-5, Input/output error''))]"
       "\<lparr>f_path = ''/d'', f_file = Some 3, f_dir = Some 4\<rparr>" "[]"]
    File_Close_aggregates [of "scripted [R_err (Some (CephError False ''cephfs: ret=-9, Bad file descriptor'')),
                         R_err None]"
       "\<lparr>f_path = ''/d'', f_file = Some 3, f_dir = Some 4\<rparr>" "[]"]
  by (simp add: prod_eq_iff close_calls_def file_close_failure_def dir_close_failure_def
      cfile_Close_def cdir_Close_def invoke_def scripted_def)

section \<open>Properties of the recursive delete\<close>

lemma reports_not_found_remote:
  "fst (mount_Statx m path tr) = Inl raw \<Longrightarrow> Is_ceph_ErrNotExist raw \<Longrightarrow> reports_not_found m path tr"
  by (cases "mount_Statx m path tr") (simp add: reports_not_found_def Fs_Stat_def)

lemma Fs_Stat_trace: "snd (Fs_Stat m path tr) = tr @ [M_Statx path]"
  by (simp add: Fs_Stat_def mount_Statx_def invoke_def split: sum.splits)

lemma RemoveAll_not_found:
  "reports_not_found m path tr \<Longrightarrow>
     Fs_RemoveAll (Suc fuel) m path tr = Some (None, tr @ [M_Statx path])"
  using Fs_Stat_trace [of m path tr]
  by (auto simp add: reports_not_found_def split: prod.splits sum.splits)

text \<open>
  C7. When the stat of the path reports not-found, \<open>RemoveAll\<close> returns success and
  its only remote call is that stat: nothing is deleted. So a second call, made after
  a call that succeeded and on a path that is then reported not-found (as it is when
  the first call removed it, or when it was absent from the start), succeeds again
  and deletes nothing.
\<close>

theorem RemoveAll_absent_path:
  "(reports_not_found m path tr \<longrightarrow>
      (\<exists>tr'. Fs_RemoveAll (Suc fuel) m path tr = Some (None, tr')
         \<and> tr' = tr @ [M_Statx path]
         \<and> filter deletes (drop (length tr) tr') = []))
   \<and> (Fs_RemoveAll fuel' m path tr = Some (None, tr1) \<and> reports_not_found m path tr1 \<longrightarrow>
        (\<exists>tr2. Fs_RemoveAll (Suc fuel) m path tr1 = Some (None, tr2)
           \<and> tr2 = tr1 @ [M_Statx path]
           \<and> filter deletes (drop (length tr1) tr2) = []))"
  by (simp add: RemoveAll_not_found del: Fs_RemoveAll.simps)

text \<open>
  A path the remote client reports as missing, removed twice; and a regular file,
  removed by the first call and reported missing to the second.
\<close>

theorem RemoveAll_absent_path_witness:
  "Fs_RemoveAll 1 (scripted gone_script) ''/gone'' [] = Some (None, [M_Statx ''/gone''])
   \<and> Fs_RemoveAll 1 (scripted gone_script) ''/gone'' [M_Statx ''/gone'']
       = Some (None, [M_Statx ''/gone'', M_Statx ''/gone''])
   \<and> Fs_RemoveAll 1 (scripted file_script) ''/f'' [] = Some (None, [M_Statx ''/f'', M_Unlink ''/f''])
   \<and> Fs_RemoveAll 1 (scripted file_script) ''/f'' [M_Statx ''/f'', M_Unlink ''/f'']
       = Some (None, [M_Statx ''/f'', M_Unlink ''/f'', M_Statx ''/f''])"
proof -
  have g0: "reports_not_found (scripted gone_script) ''/gone'' []"
    and g1: "reports_not_found (scripted gone_script) ''/gone'' [M_Statx ''/gone'']"
    and f0: "Fs_RemoveAll 1 (scripted file_script) ''/f'' []
               = Some (None, [M_Statx ''/f'', M_Unlink ''/f''])"
    and f1: "reports_not_found (scripted file_script) ''/f'' [M_Statx ''/f'', M_Unlink ''/f'']"
    by code_simp+
  show ?thesis
    using RemoveAll_absent_path [where m = "scripted gone_script" and path = "''/gone''"
        and tr = "[]" and fuel = 0] g0
      RemoveAll_absent_path [where m = "scripted gone_script" and path = "''/gone''"
        and tr = "[M_Statx ''/gone'']" and fuel = 0] g1
      RemoveAll_absent_path [where m = "scripted file_script" and path = "''/f''"
        and tr = "[]" and ?tr1.0 = "[M_Statx ''/f'', M_Unlink ''/f'']" and fuel' = 1
        and fuel = 0] f0 f1
    by simp
qed

section \<open>The recursive delete, one call unfolded\<close>

declare convertErr.simps(2) [simp del]
declare Fs_RemoveAll.simps(2) [simp del]

text \<open>One call of the recursive delete, and its two tests on what the remote client says.\<close>

lemma Fs_RemoveAll_Suc:
  "Fs_RemoveAll (Suc fuel) m path tr =
     (case Fs_Stat m path tr of
        (Inl err, tr1) \<Rightarrow>
          if os_IsNotExist err then Some (None, tr1) else Some (Some err, tr1)
      | (Inr stat, tr1) \<Rightarrow>
          if \<not> FileInfo_IsDir stat then
            (case Fs_Remove m path tr1 of
               (Some err, tr2) \<Rightarrow>
                 Some (Some (Errorf (CHR 0x27 # ''RemoveAll'' @ CHR 0x27 # '' failed to remove file at path '' @ path @ '': '') err), tr2)
             | (None, tr2) \<Rightarrow> Some (None, tr2))
          else
            (case mount_OpenDir m path tr1 of
               (Inl err, tr2) \<Rightarrow>
                 Some (Some (Errorf (''failed to open dir '' @ path @ '': '') err), tr2)
             | (Inr dir, tr2) \<Rightarrow>
                 (case forDirItem fuel m dir (RemoveAll_callback m path (Fs_RemoveAll fuel m)) tr2 of
                    None \<Rightarrow> None
                  | Some (Some err, tr3) \<Rightarrow> Some (Some err, snd (cdir_Close m dir tr3))
                  | Some (None, tr3) \<Rightarrow>
                      (case mount_RemoveDir m path tr3 of
                         (Some err, tr4) \<Rightarrow> Some (Some err, snd (cdir_Close m dir tr4))
                       | (None, tr4) \<Rightarrow> Some (None, snd (cdir_Close m dir tr4))))))"
  unfolding RemoveAll_callback_def by (simp add: Fs_RemoveAll.simps(2))

lemma FileInfo_IsDir_raw:
  "FileInfo_IsDir \<lparr>info_stat = stat, info_path = path\<rparr> = (stx_Mode stat AND S_IFMT = S_IFDIR)"
  by (simp add: FileInfo_IsDir_def FileInfo_Mode_def IsDir_toFileMode)

lemma os_IsNotExist_iff: "os_IsNotExist err = (err = OsErrNotExist)"
  by (cases err) simp_all

section \<open>Which errors pass through the Error Translator\<close>

text \<open>The translated errors are the values the translator returns.\<close>

lemma translated_image: "translated e = (\<exists>raw. convertErr (Some raw) = Some e)"
proof
  assume "translated e"
  then show "\<exists>raw. convertErr (Some raw) = Some e" unfolding translated_def by blast
next
  assume "\<exists>raw. convertErr (Some raw) = Some e"
  then obtain raw where "convertErr (Some raw) = Some e" by blast
  then show "translated e"
    by (auto simp add: translated_def convertErr.simps(2) split: if_splits)
qed

lemma convertErr_translated: "convertErr (Some raw) = Some e \<Longrightarrow> translated e"
  using translated_image by blast

text \<open>
  \<open>Create\<close> on a path whose parent is missing: the remote client's not-found error
  comes back as it is, although the translator would turn it into \<open>os.ErrNotExist\<close>.
\<close>

theorem Create_error_untranslated:
  "snd (fst (Fs_Create
       (scripted [R_open (Inl (CephError True ''cephfs: ret=-2, No such file or directory''))])
       ''/missing/f'' []))
     = Some (CephError True ''cephfs: ret=-2, No such file or directory'')
   \<and> \<not> translated (CephError True ''cephfs: ret=-2, No such file or directory'')"
  by (simp add: Fs_Create_def mount_Open_def invoke_def scripted_def translated_def
      convertErr.simps(2))

lemma convertErr_Some: "\<exists>e. convertErr (Some raw) = Some e \<and> translated e"
proof -
  obtain e where e: "convertErr (Some raw) = Some e"
    by (cases "convertErr (Some raw)") (auto simp add: convertErr.simps(2) split: if_splits)
  then show ?thesis using convertErr_translated by blast
qed

text \<open>The operations whose errors take the Error Translator.\<close>

lemma Remove_translated:
  "Fs_Remove m path tr = (convertErr (on_err m tr (M_Unlink path)), tr @ [M_Unlink path])"
  by (simp add: Fs_Remove_def mount_Unlink_def invoke_def)

lemma Mkdir_translated:
  "Fs_Mkdir m path perm tr =
     (map_option (Errorf (''failed to create directory '' @ path @ '': ''))
        (convertErr (on_err m tr (M_MakeDir path (Perm perm)))),
      tr @ [M_MakeDir path (Perm perm)])"
proof (cases "on_err m tr (M_MakeDir path (Perm perm))")
  case None
  then show ?thesis by (simp add: Fs_Mkdir_def mount_MakeDir_def invoke_def)
next
  case (Some raw)
  obtain e where e: "convertErr (Some raw) = Some e" using convertErr_Some by blast
  show ?thesis using Some e by (simp add: Fs_Mkdir_def mount_MakeDir_def invoke_def)
qed

lemma OpenFile_open_translated:
  assumes "on_open m tr (M_Open path flag (Perm perm)) = Inl err"
  shows "Fs_OpenFile m path flag perm tr
     = ((None, convertErr (Some err)), tr @ [M_Open path flag (Perm perm)])"
  using assms by (simp add: Fs_OpenFile_def mount_Open_def invoke_def)

lemma OpenFile_opendir_translated:
  assumes "on_open m tr (M_Open path flag (Perm perm)) = Inr cfile"
    and "on_statx m (tr @ [M_Open path flag (Perm perm)]) (F_Fstatx cfile) = Inr info"
    and "stx_Mode info AND S_IFMT = S_IFDIR"
    and "on_opendir m (tr @ [M_Open path flag (Perm perm), F_Fstatx cfile]) (M_OpenDir path)
           = Inl err"
  shows "Fs_OpenFile m path flag perm tr
     = ((None, convertErr (Some err)),
        tr @ [M_Open path flag (Perm perm), F_Fstatx cfile, M_OpenDir path])"
  using assms
  by (simp add: Fs_OpenFile_def mount_Open_def cfile_Fstatx_def mount_OpenDir_def invoke_def
      IsDir_toFileMode)

lemma RemoveAll_file_translated:
  assumes "on_statx m tr (M_Statx path) = Inr stat" "stx_Mode stat AND S_IFMT \<noteq> S_IFDIR"
  shows "Fs_RemoveAll (Suc fuel) m path tr
     = Some (map_option (Errorf (CHR 0x27 # ''RemoveAll'' @ CHR 0x27 # '' failed to remove file at path '' @ path @ '': ''))
               (convertErr (on_err m (tr @ [M_Statx path]) (M_Unlink path))),
             tr @ [M_Statx path, M_Unlink path])"
proof -
  have fs: "Fs_Stat m path tr = (Inr \<lparr>info_stat = stat, info_path = path\<rparr>, tr @ [M_Statx path])"
    using assms(1) by (simp add: Fs_Stat_def mount_Statx_def invoke_def)
  show ?thesis
    by (cases "convertErr (on_err m (tr @ [M_Statx path]) (M_Unlink path))")
      (simp_all add: Fs_RemoveAll_Suc fs FileInfo_IsDir_raw assms(2) Remove_translated)
qed

text \<open>The operations whose errors do not take it, or not all of it.\<close>

lemma Stat_not_found_rule:
  assumes "on_statx m tr (M_Statx path) = Inl err"
  shows "Fs_Stat m path tr
     = (Inl (if Is_ceph_ErrNotExist err then OsErrNotExist else err), tr @ [M_Statx path])"
  using assms by (simp add: Fs_Stat_def mount_Statx_def invoke_def)

lemma Create_raw:
  assumes "on_open m tr (M_Open path (O_RDWR OR O_CREATE OR O_TRUNC) 0x1B6) = Inl err"
  shows "Fs_Create m path tr
     = ((None, Some err), tr @ [M_Open path (O_RDWR OR O_CREATE OR O_TRUNC) 0x1B6])"
  using assms by (simp add: Fs_Create_def mount_Open_def invoke_def)

lemma RemoveAll_stat_raw:
  assumes "on_statx m tr (M_Statx path) = Inl err"
  shows "Fs_RemoveAll (Suc fuel) m path tr
     = Some (if Is_ceph_ErrNotExist err \<or> err = OsErrNotExist then None else Some err,
             tr @ [M_Statx path])"
  by (simp add: Fs_RemoveAll_Suc Stat_not_found_rule [OF assms] os_IsNotExist_iff)

lemma RemoveAll_opendir_raw:
  assumes "on_statx m tr (M_Statx path) = Inr stat" "stx_Mode stat AND S_IFMT = S_IFDIR"
    and "on_opendir m (tr @ [M_Statx path]) (M_OpenDir path) = Inl err"
  shows "Fs_RemoveAll (Suc fuel) m path tr
     = Some (Some (Errorf (''failed to open dir '' @ path @ '': '') err),
             tr @ [M_Statx path, M_OpenDir path])"
proof -
  have fs: "Fs_Stat m path tr = (Inr \<lparr>info_stat = stat, info_path = path\<rparr>, tr @ [M_Statx path])"
    using assms(1) by (simp add: Fs_Stat_def mount_Statx_def invoke_def)
  show ?thesis
    by (simp add: Fs_RemoveAll_Suc fs FileInfo_IsDir_raw assms(2,3) mount_OpenDir_def invoke_def)
qed

lemma RemoveAll_children_raw:
  assumes "on_statx m tr (M_Statx path) = Inr stat" "stx_Mode stat AND S_IFMT = S_IFDIR"
    and "on_opendir m (tr @ [M_Statx path]) (M_OpenDir path) = Inr dir"
    and "forDirItem fuel m dir (RemoveAll_callback m path (Fs_RemoveAll fuel m))
           (tr @ [M_Statx path, M_OpenDir path]) = Some (r, tr3)"
  shows "Fs_RemoveAll (Suc fuel) m path tr
     = (case r of
          Some err \<Rightarrow> Some (Some err, tr3 @ [D_Close dir])
        | None \<Rightarrow> Some (on_err m tr3 (M_RemoveDir path), tr3 @ [M_RemoveDir path, D_Close dir]))"
proof -
  have fs: "Fs_Stat m path tr = (Inr \<lparr>info_stat = stat, info_path = path\<rparr>, tr @ [M_Statx path])"
    using assms(1) by (simp add: Fs_Stat_def mount_Statx_def invoke_def)
  show ?thesis
  proof (cases r)
    case (Some err)
    then show ?thesis
      by (simp add: Fs_RemoveAll_Suc fs FileInfo_IsDir_raw assms mount_OpenDir_def
          cdir_Close_def invoke_def)
  next
    case None
    then show ?thesis
      by (cases "on_err m tr3 (M_RemoveDir path)")
        (simp_all add: Fs_RemoveAll_Suc fs FileInfo_IsDir_raw assms mount_OpenDir_def
          mount_RemoveDir_def cdir_Close_def invoke_def)
  qed
qed

text \<open>
  C9, amended. What the Error Translator returns is a translated error, and these
  returns of the Filesystem Adapter take it: \<open>Remove\<close> returns the translation of the
  result of the remote unlink; \<open>Mkdir\<close> returns the translation of the error of the
  remote mkdir under a context message; \<open>OpenFile\<close> (and \<open>Open\<close>, which is \<open>OpenFile\<close>
  read-only) returns the translation of the error of the remote open, and of the error
  of opening the directory capability; \<open>RemoveAll\<close> on a target that is not a
  directory returns the translation of the result of the remote unlink, under a
  context message when it is an error.

  These returns do not: \<open>Stat\<close> applies the not-found rule alone; \<open>Create\<close>,
  \<open>MkdirAll\<close>, \<open>Rename\<close>, \<open>Chmod\<close> and \<open>Chown\<close> return the error of the remote client
  as it is; and \<open>RemoveAll\<close> returns as it is the error of the stat of the target
  (not found apart, which is success), the error of opening the directory (under a
  context message), the error of the enumeration of the children, and the error of
  the remote removal of the directory.
\<close>

theorem translated_operations:
  "(\<forall>raw. \<exists>e. convertErr (Some raw) = Some e \<and> translated e)
   \<and> Fs_Remove m path tr = (convertErr (on_err m tr (M_Unlink path)), tr @ [M_Unlink path])
   \<and> Fs_Mkdir m path perm tr =
       (map_option (Errorf (''failed to create directory '' @ path @ '': ''))
          (convertErr (on_err m tr (M_MakeDir path (Perm perm)))),
        tr @ [M_MakeDir path (Perm perm)])
   \<and> (on_open m tr (M_Open path flag (Perm perm)) = Inl err \<longrightarrow>
        Fs_OpenFile m path flag perm tr
          = ((None, convertErr (Some err)), tr @ [M_Open path flag (Perm perm)]))
   \<and> (on_open m tr (M_Open path flag (Perm perm)) = Inr cfile
        \<and> on_statx m (tr @ [M_Open path flag (Perm perm)]) (F_Fstatx cfile) = Inr info
        \<and> stx_Mode info AND S_IFMT = S_IFDIR
        \<and> on_opendir m (tr @ [M_Open path flag (Perm perm), F_Fstatx cfile]) (M_OpenDir path)
             = Inl err \<longrightarrow>
        Fs_OpenFile m path flag perm tr
          = ((None, convertErr (Some err)),
             tr @ [M_Open path flag (Perm perm), F_Fstatx cfile, M_OpenDir path]))
   \<and> Fs_Open m path tr = Fs_OpenFile m path O_RDONLY 0 tr
   \<and> (on_statx m tr (M_Statx path) = Inr stat \<and> stx_Mode stat AND S_IFMT \<noteq> S_IFDIR \<longrightarrow>
        Fs_RemoveAll (Suc fuel) m path tr
          = Some (map_option (Errorf (CHR 0x27 # ''RemoveAll'' @ CHR 0x27 # '' failed to remove file at path '' @ path @ '': ''))
                    (convertErr (on_err m (tr @ [M_Statx path]) (M_Unlink path))),
                  tr @ [M_Statx path, M_Unlink path]))
   \<and> (on_statx m tr (M_Statx path) = Inl err \<longrightarrow>
        Fs_Stat m path tr
          = (Inl (if Is_ceph_ErrNotExist err then OsErrNotExist else err), tr @ [M_Statx path]))
   \<and> (on_open m tr (M_Open path (O_RDWR OR O_CREATE OR O_TRUNC) 0x1B6) = Inl err \<longrightarrow>
        Fs_Create m path tr
          = ((None, Some err), tr @ [M_Open path (O_RDWR OR O_CREATE OR O_TRUNC) 0x1B6]))
   \<and> Fs_MkdirAll m path perm tr
       = (on_err m tr (M_MakeDirs path (Perm perm)), tr @ [M_MakeDirs path (Perm perm)])
   \<and> Fs_Rename m path newPath tr
       = (on_err m tr (M_Rename path newPath), tr @ [M_Rename path newPath])
   \<and> Fs_Chmod m path perm tr
       = (on_err m tr (M_Chmod path (Perm perm)), tr @ [M_Chmod path (Perm perm)])
   \<and> Fs_Chown m path uid gid tr
       = (on_err m tr (M_Chown path (word_of_int uid) (word_of_int gid)),
          tr @ [M_Chown path (word_of_int uid) (word_of_int gid)])
   \<and> (on_statx m tr (M_Statx path) = Inl err \<longrightarrow>
        Fs_RemoveAll (Suc fuel) m path tr
          = Some (if Is_ceph_ErrNotExist err \<or> err = OsErrNotExist then None else Some err,
                  tr @ [M_Statx path]))
   \<and> (on_statx m tr (M_Statx path) = Inr stat \<and> stx_Mode stat AND S_IFMT = S_IFDIR
        \<and> on_opendir m (tr @ [M_Statx path]) (M_OpenDir path) = Inl err \<longrightarrow>
        Fs_RemoveAll (Suc fuel) m path tr
          = Some (Some (Errorf (''failed to open dir '' @ path @ '': '') err),
                  tr @ [M_Statx path, M_OpenDir path]))
   \<and> (on_statx m tr (M_Statx path) = Inr stat \<and> stx_Mode stat AND S_IFMT = S_IFDIR
        \<and> on_opendir m (tr @ [M_Statx path]) (M_OpenDir path) = Inr dir
        \<and> forDirItem fuel m dir (RemoveAll_callback m path (Fs_RemoveAll fuel m))
             (tr @ [M_Statx path, M_OpenDir path]) = Some (r, tr3) \<longrightarrow>
        Fs_RemoveAll (Suc fuel) m path tr
          = (case r of
               Some err \<Rightarrow> Some (Some err, tr3 @ [D_Close dir])
             | None \<Rightarrow>
                 Some (on_err m tr3 (M_RemoveDir path), tr3 @ [M_RemoveDir path, D_Close dir])))"
proof -
  have 1: "\<forall>raw. \<exists>e. convertErr (Some raw) = Some e \<and> translated e"
    using convertErr_Some by blast
  have 2: "Fs_Open m path tr = Fs_OpenFile m path O_RDONLY 0 tr"
    by (simp add: Fs_Open_def)
  have 3: "Fs_MkdirAll m path perm tr
       = (on_err m tr (M_MakeDirs path (Perm perm)), tr @ [M_MakeDirs path (Perm perm)])"
    by (simp add: Fs_MkdirAll_def mount_MakeDirs_def invoke_def)
  have 4: "Fs_Rename m path newPath tr
       = (on_err m tr (M_Rename path newPath), tr @ [M_Rename path newPath])"
    by (simp add: Fs_Rename_def mount_Rename_def invoke_def)
  have 5: "Fs_Chmod m path perm tr
       = (on_err m tr (M_Chmod path (Perm perm)), tr @ [M_Chmod path (Perm perm)])"
    by (simp add: Fs_Chmod_def mount_Chmod_def invoke_def)
  have 6: "Fs_Chown m path uid gid tr
       = (on_err m tr (M_Chown path (word_of_int uid) (word_of_int gid)),
          tr @ [M_Chown path (word_of_int uid) (word_of_int gid)])"
    by (simp add: Fs_Chown_def mount_Chown_def invoke_def)
  show ?thesis
    using 1 2 3 4 5 6 Remove_translated [of m path tr] Mkdir_translated [of m path perm tr]
      OpenFile_open_translated [of m tr path flag perm err]
      OpenFile_opendir_translated [of m tr path flag perm cfile info err]
      RemoveAll_file_translated [of m tr path stat fuel]
      Stat_not_found_rule [of m tr path err] Create_raw [of m tr path err]
      RemoveAll_stat_raw [of m tr path err fuel]
      RemoveAll_opendir_raw [of m tr path stat err fuel]
      RemoveAll_children_raw [of m tr path stat dir fuel r tr3]
    by blast
qed

text \<open>
  Runs of the operations. Translated: \<open>Remove\<close> and \<open>OpenFile\<close> of a missing path,
  \<open>Mkdir\<close> of an existing one, \<open>OpenFile\<close> of a directory that is gone when it is
  opened, and \<open>RemoveAll\<close> of a regular file that is gone when it is unlinked. Not
  translated: \<open>Stat\<close>, \<open>Create\<close>, \<open>MkdirAll\<close> and \<open>RemoveAll\<close> on a remote error that
  the translator would turn into \<open>os.ErrExist\<close>; \<open>RemoveAll\<close> of a directory that is
  gone when it is opened, of an empty directory whose removal fails, and of a
  directory with a child whose unlink is refused.
\<close>

theorem translated_operations_witness:
  "translated OsErrNotExist
   \<and> Fs_Remove (scripted [R_err (Some not_found)]) ''/gone'' []
       = (Some OsErrNotExist, [M_Unlink ''/gone''])
   \<and> Fs_Mkdir (scripted [R_err (Some already)]) ''/d'' 0x1ED []
       = (Some (Errorf ''failed to create directory /d: '' OsErrExist), [M_MakeDir ''/d'' 0x1ED])
   \<and> Fs_OpenFile (scripted [R_open (Inl not_found)]) ''/gone'' 0 0 []
       = ((None, Some OsErrNotExist), [M_Open ''/gone'' 0 0])
   \<and> Fs_OpenFile (scripted open_dir_script) ''/d'' 0 0 []
       = ((None, Some OsErrNotExist), [M_Open ''/d'' 0 0, F_Fstatx 3, M_OpenDir ''/d''])
   \<and> Fs_RemoveAll (Suc 0) (scripted vanished_file_script) ''/f'' []
       = Some (Some (Errorf (CHR 0x27 # ''RemoveAll'' @ CHR 0x27 # '' failed to remove file at path /f: '') OsErrNotExist), [M_Statx ''/f'', M_Unlink ''/f''])
   \<and> Fs_Stat (scripted [R_statx (Inl already)]) ''/d'' [] = (Inl already, [M_Statx ''/d''])
   \<and> Fs_Create (scripted [R_open (Inl already)]) ''/f'' []
       = ((None, Some already), [M_Open ''/f'' 0x242 0x1B6])
   \<and> Fs_MkdirAll (scripted [R_err (Some already)]) ''/d'' 0x1ED []
       = (Some already, [M_MakeDirs ''/d'' 0x1ED])
   \<and> Fs_RemoveAll (Suc 0) (scripted [R_statx (Inl already)]) ''/d'' []
       = Some (Some already, [M_Statx ''/d''])
   \<and> Fs_RemoveAll (Suc 0) (scripted vanished_dir_script) ''/d'' []
       = Some (Some (Errorf ''failed to open dir /d: '' not_found),
               [M_Statx ''/d'', M_OpenDir ''/d''])
   \<and> Fs_RemoveAll (Suc 1) (scripted kept_dir_script) ''/d'' []
       = Some (Some already,
               [M_Statx ''/d'', M_OpenDir ''/d'', D_ReadDir 1, M_RemoveDir ''/d'', D_Close 1])
   \<and> Fs_RemoveAll (Suc 1) (scripted refused_script) ''/d'' []
       = Some (Some (Errorf ''DirEntry callback failed: ''
                       (Errorf ''failed to remove file /d/a: '' denied)), refused_calls)"
proof -
  have c: "convertErr (Some not_found) = Some OsErrNotExist"
    and c': "convertErr (Some already) = Some OsErrExist"
    by code_simp+
  have 1: "translated OsErrNotExist"
    using translated_operations [THEN conjunct1, THEN spec, of not_found] c by auto
  have "on_err (scripted [R_err (Some not_found)]) [] (M_Unlink ''/gone'') = Some not_found"
    by code_simp
  then have 2: "Fs_Remove (scripted [R_err (Some not_found)]) ''/gone'' []
       = (Some OsErrNotExist, [M_Unlink ''/gone''])"
    using translated_operations
      [where m = "scripted [R_err (Some not_found)]" and path = "''/gone''" and tr = "[]",
        THEN conjunct2, THEN conjunct1] c
    by simp
  have "on_err (scripted [R_err (Some already)]) [] (M_MakeDir ''/d'' (Perm 0x1ED)) = Some already"
    and p: "Perm 0x1ED = 0x1ED"
    by code_simp+
  then have 3: "Fs_Mkdir (scripted [R_err (Some already)]) ''/d'' 0x1ED []
       = (Some (Errorf ''failed to create directory /d: '' OsErrExist), [M_MakeDir ''/d'' 0x1ED])"
    using translated_operations
      [where m = "scripted [R_err (Some already)]" and path = "''/d''" and tr = "[]"
         and perm = "0x1ED", THEN conjunct2, THEN conjunct2, THEN conjunct1] c'
    by simp
  have p0: "Perm 0 = 0" by code_simp
  have "on_open (scripted [R_open (Inl not_found)]) [] (M_Open ''/gone'' 0 (Perm 0)) = Inl not_found"
    by code_simp
  then have "Fs_OpenFile (scripted [R_open (Inl not_found)]) ''/gone'' 0 0 []
       = ((None, convertErr (Some not_found)), [] @ [M_Open ''/gone'' 0 (Perm 0)])"
    using translated_operations
      [where m = "scripted [R_open (Inl not_found)]" and path = "''/gone''" and tr = "[]"
         and flag = 0 and perm = 0 and err = not_found]
    by blast
  then have 4: "Fs_OpenFile (scripted [R_open (Inl not_found)]) ''/gone'' 0 0 []
       = ((None, Some OsErrNotExist), [M_Open ''/gone'' 0 0])"
    using c p0 by simp
  have "on_open (scripted open_dir_script) [] (M_Open ''/d'' 0 (Perm 0)) = Inr 3
      \<and> on_statx (scripted open_dir_script) ([] @ [M_Open ''/d'' 0 (Perm 0)]) (F_Fstatx 3)
          = Inr dirStat
      \<and> stx_Mode dirStat AND S_IFMT = S_IFDIR
      \<and> on_opendir (scripted open_dir_script) ([] @ [M_Open ''/d'' 0 (Perm 0), F_Fstatx 3])
            (M_OpenDir ''/d'') = Inl not_found"
    by code_simp
  then have "Fs_OpenFile (scripted open_dir_script) ''/d'' 0 0 []
       = ((None, convertErr (Some not_found)),
          [] @ [M_Open ''/d'' 0 (Perm 0), F_Fstatx 3, M_OpenDir ''/d''])"
    using translated_operations
      [where m = "scripted open_dir_script" and path = "''/d''" and tr = "[]"
         and flag = 0 and perm = 0 and err = not_found and cfile = 3 and info = dirStat]
    by blast
  then have 5: "Fs_OpenFile (scripted open_dir_script) ''/d'' 0 0 []
       = ((None, Some OsErrNotExist), [M_Open ''/d'' 0 0, F_Fstatx 3, M_OpenDir ''/d''])"
    using c p0 by simp
  have u: "on_err (scripted vanished_file_script) [M_Statx ''/f''] (M_Unlink ''/f'')
      = Some not_found"
    by code_simp
  have "on_statx (scripted vanished_file_script) [] (M_Statx ''/f'') = Inr regStat
      \<and> stx_Mode regStat AND S_IFMT \<noteq> S_IFDIR"
    by code_simp
  then have "Fs_RemoveAll (Suc 0) (scripted vanished_file_script) ''/f'' []
       = Some (map_option (Errorf (CHR 0x27 # ''RemoveAll'' @ CHR 0x27 # '' failed to remove file at path '' @ ''/f'' @ '': ''))
                 (convertErr (on_err (scripted vanished_file_script) ([] @ [M_Statx ''/f''])
                    (M_Unlink ''/f''))),
               [] @ [M_Statx ''/f'', M_Unlink ''/f''])"
    using translated_operations
      [where m = "scripted vanished_file_script" and path = "''/f''" and tr = "[]"
         and stat = regStat and fuel = 0]
    by blast
  then have 6: "Fs_RemoveAll (Suc 0) (scripted vanished_file_script) ''/f'' []
       = Some (Some (Errorf (CHR 0x27 # ''RemoveAll'' @ CHR 0x27 # '' failed to remove file at path /f: '') OsErrNotExist), [M_Statx ''/f'', M_Unlink ''/f''])"
    using u c by simp
  have s: "on_statx (scripted [R_statx (Inl already)]) [] (M_Statx ''/d'') = Inl already"
    and n: "\<not> Is_ceph_ErrNotExist already" "already \<noteq> OsErrNotExist"
    by code_simp+
  have "Fs_Stat (scripted [R_statx (Inl already)]) ''/d'' []
       = (Inl (if Is_ceph_ErrNotExist already then OsErrNotExist else already),
          [] @ [M_Statx ''/d''])"
    using translated_operations
      [where m = "scripted [R_statx (Inl already)]" and path = "''/d''" and tr = "[]"
         and err = already] s
    by blast
  then have 7: "Fs_Stat (scripted [R_statx (Inl already)]) ''/d'' []
       = (Inl already, [M_Statx ''/d''])"
    using n by simp
  have o: "(O_RDWR OR O_CREATE OR O_TRUNC) = 0x242" by code_simp
  have "on_open (scripted [R_open (Inl already)]) []
        (M_Open ''/f'' (O_RDWR OR O_CREATE OR O_TRUNC) 0x1B6) = Inl already"
    by code_simp
  then have "Fs_Create (scripted [R_open (Inl already)]) ''/f'' []
       = ((None, Some already), [] @ [M_Open ''/f'' (O_RDWR OR O_CREATE OR O_TRUNC) 0x1B6])"
    using translated_operations
      [where m = "scripted [R_open (Inl already)]" and path = "''/f''" and tr = "[]"
         and err = already]
    by blast
  then have 8: "Fs_Create (scripted [R_open (Inl already)]) ''/f'' []
       = ((None, Some already), [M_Open ''/f'' 0x242 0x1B6])"
    using o by simp
  have m: "on_err (scripted [R_err (Some already)]) [] (M_MakeDirs ''/d'' (Perm 0x1ED))
      = Some already"
    by code_simp
  have "Fs_MkdirAll (scripted [R_err (Some already)]) ''/d'' 0x1ED []
       = (on_err (scripted [R_err (Some already)]) [] (M_MakeDirs ''/d'' (Perm 0x1ED)),
          [] @ [M_MakeDirs ''/d'' (Perm 0x1ED)])"
    using translated_operations
      [where m = "scripted [R_err (Some already)]" and path = "''/d''" and tr = "[]"
         and perm = "0x1ED"]
    by blast
  then have 9: "Fs_MkdirAll (scripted [R_err (Some already)]) ''/d'' 0x1ED []
       = (Some already, [M_MakeDirs ''/d'' 0x1ED])"
    using m p by simp
  have "Fs_RemoveAll (Suc 0) (scripted [R_statx (Inl already)]) ''/d'' []
       = Some (if Is_ceph_ErrNotExist already \<or> already = OsErrNotExist then None
               else Some already, [] @ [M_Statx ''/d''])"
    using translated_operations
      [where m = "scripted [R_statx (Inl already)]" and path = "''/d''" and tr = "[]"
         and err = already and fuel = 0] s
    by blast
  then have 10: "Fs_RemoveAll (Suc 0) (scripted [R_statx (Inl already)]) ''/d'' []
       = Some (Some already, [M_Statx ''/d''])"
    using n by simp
  have "on_statx (scripted vanished_dir_script) [] (M_Statx ''/d'') = Inr dirStat
      \<and> stx_Mode dirStat AND S_IFMT = S_IFDIR
      \<and> on_opendir (scripted vanished_dir_script) ([] @ [M_Statx ''/d'']) (M_OpenDir ''/d'')
          = Inl not_found"
    by code_simp
  then have "Fs_RemoveAll (Suc 0) (scripted vanished_dir_script) ''/d'' []
       = Some (Some (Errorf (''failed to open dir '' @ ''/d'' @ '': '') not_found),
               [] @ [M_Statx ''/d'', M_OpenDir ''/d''])"
    using translated_operations
      [where m = "scripted vanished_dir_script" and path = "''/d''" and tr = "[]"
         and stat = dirStat and err = not_found and fuel = 0]
    by blast
  then have 11: "Fs_RemoveAll (Suc 0) (scripted vanished_dir_script) ''/d'' []
       = Some (Some (Errorf ''failed to open dir /d: '' not_found),
               [M_Statx ''/d'', M_OpenDir ''/d''])"
    by simp
  have r: "on_err (scripted kept_dir_script) [M_Statx ''/d'', M_OpenDir ''/d'', D_ReadDir 1]
        (M_RemoveDir ''/d'') = Some already"
    by code_simp
  have "on_statx (scripted kept_dir_script) [] (M_Statx ''/d'') = Inr dirStat
      \<and> stx_Mode dirStat AND S_IFMT = S_IFDIR
      \<and> on_opendir (scripted kept_dir_script) ([] @ [M_Statx ''/d'']) (M_OpenDir ''/d'') = Inr 1
      \<and> forDirItem 1 (scripted kept_dir_script) 1
          (RemoveAll_callback (scripted kept_dir_script) ''/d''
             (Fs_RemoveAll 1 (scripted kept_dir_script)))
          ([] @ [M_Statx ''/d'', M_OpenDir ''/d''])
        = Some (None, [M_Statx ''/d'', M_OpenDir ''/d'', D_ReadDir 1])"
    by code_simp
  then have "Fs_RemoveAll (Suc 1) (scripted kept_dir_script) ''/d'' []
       = (case None of
            Some err \<Rightarrow> Some (Some err, [M_Statx ''/d'', M_OpenDir ''/d'', D_ReadDir 1] @ [D_Close 1])
          | None \<Rightarrow>
              Some (on_err (scripted kept_dir_script)
                      [M_Statx ''/d'', M_OpenDir ''/d'', D_ReadDir 1] (M_RemoveDir ''/d''),
                    [M_Statx ''/d'', M_OpenDir ''/d'', D_ReadDir 1]
                      @ [M_RemoveDir ''/d'', D_Close 1]))"
    using translated_operations
      [where m = "scripted kept_dir_script" and path = "''/d''" and tr = "[]"
         and stat = dirStat and dir = 1 and fuel = 1 and r = None
         and ?tr3.0 = "[M_Statx ''/d'', M_OpenDir ''/d'', D_ReadDir 1]"]
    by blast
  then have 12: "Fs_RemoveAll (Suc 1) (scripted kept_dir_script) ''/d'' []
       = Some (Some already,
               [M_Statx ''/d'', M_OpenDir ''/d'', D_ReadDir 1, M_RemoveDir ''/d'', D_Close 1])"
    using r by simp
  have "on_statx (scripted refused_script) [] (M_Statx ''/d'') = Inr dirStat
      \<and> stx_Mode dirStat AND S_IFMT = S_IFDIR
      \<and> on_opendir (scripted refused_script) ([] @ [M_Statx ''/d'']) (M_OpenDir ''/d'') = Inr 1
      \<and> forDirItem 1 (scripted refused_script) 1
          (RemoveAll_callback (scripted refused_script) ''/d''
             (Fs_RemoveAll 1 (scripted refused_script)))
          ([] @ [M_Statx ''/d'', M_OpenDir ''/d''])
        = Some (Some (Errorf ''DirEntry callback failed: ''
                        (Errorf ''failed to remove file /d/a: '' denied)),
                [M_Statx ''/d'', M_OpenDir ''/d'', D_ReadDir 1, M_Unlink ''/d/a''])"
    by code_simp
  then have "Fs_RemoveAll (Suc 1) (scripted refused_script) ''/d'' []
       = (case Some (Errorf ''DirEntry callback failed: ''
                       (Errorf ''failed to remove file /d/a: '' denied)) of
            Some err \<Rightarrow>
              Some (Some err,
                    [M_Statx ''/d'', M_OpenDir ''/d'', D_ReadDir 1, M_Unlink ''/d/a'']
                      @ [D_Close 1])
          | None \<Rightarrow>
              Some (on_err (scripted refused_script)
                      [M_Statx ''/d'', M_OpenDir ''/d'', D_ReadDir 1, M_Unlink ''/d/a'']
                      (M_RemoveDir ''/d''),
                    [M_Statx ''/d'', M_OpenDir ''/d'', D_ReadDir 1, M_Unlink ''/d/a'']
                      @ [M_RemoveDir ''/d'', D_Close 1]))"
    using translated_operations
      [where m = "scripted refused_script" and path = "''/d''" and tr = "[]"
         and stat = dirStat and dir = 1 and fuel = 1
         and r = "Some (Errorf ''DirEntry callback failed: ''
                          (Errorf ''failed to remove file /d/a: '' denied))"
         and ?tr3.0 = "[M_Statx ''/d'', M_OpenDir ''/d'', D_ReadDir 1, M_Unlink ''/d/a'']"]
    by blast
  then have 13: "Fs_RemoveAll (Suc 1) (scripted refused_script) ''/d'' []
       = Some (Some (Errorf ''DirEntry callback failed: ''
                       (Errorf ''failed to remove file /d/a: '' denied)), refused_calls)"
    by (simp add: refused_calls_def)
  show ?thesis
    by (intro conjI 1 2 3 4 5 6 7 8 9 10 11 12 13)
qed

section \<open>The recursive delete follows its algorithm\<close>

text \<open>Wrapping: an error wraps itself, and what it wraps under one more message.\<close>

lemma wraps_refl [simp]: "wraps e e"
  by (simp add: wraps_def chain_self)

lemma chain_trans: "b \<in> set (chain c) \<Longrightarrow> a \<in> set (chain b) \<Longrightarrow> a \<in> set (chain c)"
  by (induction c rule: chain.induct) auto

lemma wraps_Errorf [simp]: "wraps e a \<Longrightarrow> wraps (Errorf pre e) a"
  by (simp add: wraps_def)

lemma same_run_simps [simp]:
  "same_run None alg = (alg = None)"
  "same_run (Some (None, tr)) alg = (alg = Some (None, tr))"
  "same_run (Some (Some c, tr)) alg = (\<exists>a. alg = Some (Some a, tr) \<and> wraps c a)"
  by (auto simp add: same_run_def split: option.splits prod.splits)

lemma callback_cases:
  fixes r :: "(error option \<times> call list) option"
  obtains (none) "r = None" | (ok) tr where "r = Some (None, tr)"
  | (err) e tr where "r = Some (Some e, tr)"
proof (cases r)
  case None
  then show ?thesis using none by simp
next
  case (Some p)
  obtain eo tr where p: "p = (eo, tr)" by (cases p)
  show ?thesis using Some p ok err by (cases eo) auto
qed

lemma callback_pseudo:
  "pseudo (de_Name de) \<Longrightarrow> RemoveAll_callback m path R de trc = Some (None, trc)"
  by (simp add: RemoveAll_callback_def pseudo_def)

lemma callback_dir:
  assumes "\<not> pseudo (de_Name de)" "de_DType de = DTypeDir"
  shows "RemoveAll_callback m path R de trc = R (path @ ''/'' @ de_Name de) trc"
proof (cases "R (path @ ''/'' @ de_Name de) trc")
  case None
  then show ?thesis using assms by (simp add: RemoveAll_callback_def pseudo_def Let_def)
next
  case (Some p)
  obtain eo tr where p: "p = (eo, tr)" by (cases p)
  show ?thesis using assms Some p
    by (cases eo) (simp_all add: RemoveAll_callback_def pseudo_def Let_def)
qed

lemma callback_other:
  assumes "\<not> pseudo (de_Name de)" "de_DType de \<noteq> DTypeDir"
  shows "same_run (RemoveAll_callback m path R de trc)
           (Some (mount_Unlink m (path @ ''/'' @ de_Name de) trc))"
proof -
  obtain u tr2 where ul: "mount_Unlink m (path @ ''/'' @ de_Name de) trc = (u, tr2)" by fastforce
  show ?thesis using assms ul
    by (cases u) (simp_all add: RemoveAll_callback_def pseudo_def Let_def)
qed

text \<open>
  The loop of \<open>forDirItem\<close> with the closure of \<open>RemoveAll\<close> is the enumeration of the
  children of the algorithm, when the recursive deletes they hand directories to agree.
\<close>

lemma forDirItem_children:
  assumes R: "\<And>p t. same_run (R1 p t) (R2 p t)"
  shows "same_run (forDirItem k m dir (RemoveAll_callback m path R1) tr)
           (children_alg k m path dir R2 tr)"
proof (induction k arbitrary: tr)
  case 0
  show ?case by simp
next
  case (Suc k)
  obtain r tr1 where rd: "cdir_ReadDir m dir tr = (r, tr1)" by fastforce
  show ?case
  proof (cases r)
    case (Inl err)
    then show ?thesis using rd by simp
  next
    case (Inr eo)
    show ?thesis
    proof (cases eo)
      case None
      then show ?thesis using rd Inr by simp
    next
      case (Some de)
      show ?thesis
      proof (cases "pseudo (de_Name de)")
        case True
        then show ?thesis using rd Inr Some Suc.IH [of tr1]
          by (simp add: callback_pseudo)
      next
        case False
        let ?full = "path @ ''/'' @ de_Name de"
        show ?thesis
        proof (cases "de_DType de = DTypeDir")
          case True
          have cb: "RemoveAll_callback m path R1 de tr1 = R1 ?full tr1"
            using False True by (rule callback_dir)
          show ?thesis
          proof (cases "R1 ?full tr1" rule: callback_cases)
            case none
            then have "R2 ?full tr1 = None" using R [of ?full tr1] by simp
            then show ?thesis using rd Inr Some False True cb none by simp
          next
            case (ok tr2)
            then have "R2 ?full tr1 = Some (None, tr2)" using R [of ?full tr1] by simp
            then show ?thesis using rd Inr Some False True cb ok Suc.IH [of tr2] by simp
          next
            case (err e tr2)
            then obtain a where "R2 ?full tr1 = Some (Some a, tr2)" "wraps e a"
              using R [of ?full tr1] by auto
            then show ?thesis using rd Inr Some False True cb err by simp
          qed
        next
          case notdir: False
          obtain u tr2 where ul: "mount_Unlink m ?full tr1 = (u, tr2)" by fastforce
          have cb: "same_run (RemoveAll_callback m path R1 de tr1) (Some (u, tr2))"
            using callback_other [OF False notdir, of m path R1 tr1] ul by simp
          show ?thesis
          proof (cases "RemoveAll_callback m path R1 de tr1" rule: callback_cases)
            case none
            then show ?thesis using cb by simp
          next
            case (ok tr3)
            then have "u = None" "tr3 = tr2" using cb by simp_all
            then show ?thesis using rd Inr Some False notdir ul ok Suc.IH [of tr2] by simp
          next
            case (err e tr3)
            then obtain a where "u = Some a" "tr3 = tr2" "wraps e a" using cb by auto
            then show ?thesis using rd Inr \<open>eo = Some de\<close> False notdir ul err by simp
          qed
        qed
      qed
    qed
  qed
qed

text \<open>
  The code against the algorithm, on every path and from every history.
\<close>

lemma RemoveAll_same_run:
  "same_run (Fs_RemoveAll fuel m path tr) (RemoveAll_alg fuel m path tr)"
proof (induction fuel arbitrary: path tr)
  case 0
  show ?case by simp
next
  case (Suc fuel)
  obtain x tr1 where st: "mount_Statx m path tr = (x, tr1)" by fastforce
  show ?case
  proof (cases x)
    case (Inl err)
    then show ?thesis using st
      by (simp add: Fs_RemoveAll_Suc Fs_Stat_def os_IsNotExist_iff)
  next
    case (Inr stat)
    then have fs: "Fs_Stat m path tr = (Inr \<lparr>info_stat = stat, info_path = path\<rparr>, tr1)"
      using st by (simp add: Fs_Stat_def)
    show ?thesis
    proof (cases "stx_Mode stat AND S_IFMT = S_IFDIR")
      case False
      obtain u tr2 where ul: "mount_Unlink m path tr1 = (u, tr2)" by fastforce
      then have rm: "Fs_Remove m path tr1 = (convertErr u, tr2)" by (simp add: Fs_Remove_def)
      show ?thesis using st Inr fs False ul rm
        by (cases "convertErr u") (simp_all add: Fs_RemoveAll_Suc FileInfo_IsDir_raw)
    next
      case True
      obtain d tr2 where od: "mount_OpenDir m path tr1 = (d, tr2)" by fastforce
      show ?thesis
      proof (cases d)
        case (Inl err)
        then show ?thesis using st Inr fs True od
          by (simp add: Fs_RemoveAll_Suc FileInfo_IsDir_raw)
      next
        case dir: (Inr dir)
        have loop: "same_run (forDirItem fuel m dir (RemoveAll_callback m path (Fs_RemoveAll fuel m)) tr2)
            (children_alg fuel m path dir (RemoveAll_alg fuel m) tr2)"
          by (rule forDirItem_children) (rule Suc.IH)
        show ?thesis
        proof (cases "forDirItem fuel m dir (RemoveAll_callback m path (Fs_RemoveAll fuel m)) tr2"
            rule: callback_cases)
          case none
          then have "children_alg fuel m path dir (RemoveAll_alg fuel m) tr2 = None"
            using loop by simp
          then show ?thesis using st Inr fs True od dir none
            by (simp add: Fs_RemoveAll_Suc FileInfo_IsDir_raw)
        next
          case (ok tr3)
          then have a: "children_alg fuel m path dir (RemoveAll_alg fuel m) tr2 = Some (None, tr3)"
            using loop by simp
          obtain u tr4 where rd: "mount_RemoveDir m path tr3 = (u, tr4)" by fastforce
          show ?thesis using st Inr fs True od dir ok a rd
            by (cases u) (simp_all add: Fs_RemoveAll_Suc FileInfo_IsDir_raw)
        next
          case (err e tr3)
          then obtain a where "children_alg fuel m path dir (RemoveAll_alg fuel m) tr2 = Some (Some a, tr3)"
            "wraps e a"
            using loop by auto
          then show ?thesis using st Inr fs True od dir err
            by (simp add: Fs_RemoveAll_Suc FileInfo_IsDir_raw)
        qed
      qed
    qed
  qed
qed

text \<open>
  The first steps on the calls of the remote client: a target the remote \<open>Statx\<close>
  reports as not found, and a target whose raw mode is no directory.
\<close>

lemma RemoveAll_target_not_found:
  assumes "on_statx m tr (M_Statx path) = Inl err" "Is_ceph_ErrNotExist err"
  shows "Fs_RemoveAll (Suc fuel) m path tr = Some (None, tr @ [M_Statx path])"
  using assms by (simp add: Fs_RemoveAll_Suc Fs_Stat_def mount_Statx_def invoke_def)

lemma RemoveAll_target_not_directory:
  assumes "on_statx m tr (M_Statx path) = Inr stat" "stx_Mode stat AND S_IFMT \<noteq> S_IFDIR"
  shows "\<exists>e. Fs_RemoveAll (Suc fuel) m path tr = Some (e, tr @ [M_Statx path, M_Unlink path])
           \<and> (e = None) = (on_err m (tr @ [M_Statx path]) (M_Unlink path) = None)
           \<and> (\<forall>c. e = Some c \<longrightarrow>
                 (\<exists>a. convertErr (on_err m (tr @ [M_Statx path]) (M_Unlink path)) = Some a
                    \<and> wraps c a))"
proof -
  have fs: "Fs_Stat m path tr = (Inr \<lparr>info_stat = stat, info_path = path\<rparr>, tr @ [M_Statx path])"
    using assms(1) by (simp add: Fs_Stat_def mount_Statx_def invoke_def)
  let ?u = "on_err m (tr @ [M_Statx path]) (M_Unlink path)"
  have rm: "Fs_Remove m path (tr @ [M_Statx path]) = (convertErr ?u, tr @ [M_Statx path, M_Unlink path])"
    by (simp add: Fs_Remove_def mount_Unlink_def invoke_def)
  show ?thesis
  proof (cases ?u)
    case None
    then show ?thesis using fs rm assms(2)
      by (simp add: Fs_RemoveAll_Suc FileInfo_IsDir_raw)
  next
    case (Some raw)
    then obtain a where a: "convertErr ?u = Some a"
      by (cases "convertErr (Some raw)") (auto simp add: convertErr.simps(2) split: if_splits)
    show ?thesis using fs rm assms(2) Some a
      by (simp add: Fs_RemoveAll_Suc FileInfo_IsDir_raw)
  qed
qed

text \<open>
  C2. \<open>RemoveAll\<close> is the algorithm of the specification, written on the calls of the
  remote client: on every path and from every history the two make the same remote
  calls in the same order and return within the same fuel, both succeed or both fail,
  and the error the code returns is the error of the algorithm (the failure of the
  stat, of the removal, of the enumeration, of a child or of the removal of the
  directory), as it is or wrapped in context messages. In particular a target the
  remote stat reports as not found gives success after that stat alone, and a target
  that is not a directory gives the remote stat followed by the remote unlink of the
  target, with success exactly when that unlink succeeds and its translated failure
  returned otherwise.
\<close>

theorem RemoveAll_follows_algorithm:
  "same_run (Fs_RemoveAll fuel m path tr) (RemoveAll_alg fuel m path tr)
   \<and> (on_statx m tr (M_Statx path) = Inl err \<and> Is_ceph_ErrNotExist err \<longrightarrow>
        Fs_RemoveAll (Suc fuel) m path tr = Some (None, tr @ [M_Statx path]))
   \<and> (on_statx m tr (M_Statx path) = Inr stat \<and> stx_Mode stat AND S_IFMT \<noteq> S_IFDIR \<longrightarrow>
        (\<exists>e. Fs_RemoveAll (Suc fuel) m path tr = Some (e, tr @ [M_Statx path, M_Unlink path])
           \<and> (e = None) = (on_err m (tr @ [M_Statx path]) (M_Unlink path) = None)
           \<and> (\<forall>c. e = Some c \<longrightarrow>
                 (\<exists>a. convertErr (on_err m (tr @ [M_Statx path]) (M_Unlink path)) = Some a
                    \<and> wraps c a))))"
  using RemoveAll_same_run [of fuel m path tr]
    RemoveAll_target_not_found [of m tr path err fuel]
    RemoveAll_target_not_directory [of m tr path stat fuel]
  by blast

text \<open>
  Runs of the code and of the algorithm. On the directory \<open>/d\<close> the pseudo-entries
  are skipped, the file, the symlink and the entry of unknown type are unlinked, the
  directory \<open>s\<close> is removed by the recursive call after its child, and \<open>/d\<close> itself
  last. When the unlink of a child is refused the call returns that error under its
  context messages and the directory is not removed. A path that is not found is a
  success after one stat; a regular file is unlinked; and when that unlink is refused
  the call returns its error under a context message.
\<close>

lemma RemoveAll_tree_run:
  "Fs_RemoveAll 8 (scripted tree_script) ''/d'' [] = Some (None, tree_calls)"
  by code_simp

lemma RemoveAll_refused_run:
  "Fs_RemoveAll 8 (scripted refused_script) ''/d'' []
     = Some (Some (Errorf ''DirEntry callback failed: ''
                     (Errorf ''failed to remove file /d/a: '' denied)), refused_calls)"
  by code_simp

theorem RemoveAll_follows_algorithm_witness:
  "RemoveAll_alg 8 (scripted tree_script) ''/d'' [] = Some (None, tree_calls)
   \<and> (\<exists>a. RemoveAll_alg 8 (scripted refused_script) ''/d'' [] = Some (Some a, refused_calls)
          \<and> wraps (Errorf ''DirEntry callback failed: ''
                     (Errorf ''failed to remove file /d/a: '' denied)) a)
   \<and> Fs_RemoveAll 1 (scripted gone_script) ''/gone'' [] = Some (None, [M_Statx ''/gone''])
   \<and> Fs_RemoveAll 1 (scripted file_script) ''/f'' []
       = Some (None, [M_Statx ''/f'', M_Unlink ''/f''])
   \<and> (\<exists>c. Fs_RemoveAll 1 (scripted refused_file_script) ''/f'' []
              = Some (Some c, [M_Statx ''/f'', M_Unlink ''/f''])
          \<and> wraps c denied)"
proof -
  have 1: "RemoveAll_alg 8 (scripted tree_script) ''/d'' [] = Some (None, tree_calls)"
    using RemoveAll_follows_algorithm [of 8 "scripted tree_script" "''/d''" "[]", THEN conjunct1]
    by (simp add: RemoveAll_tree_run)
  have 2: "\<exists>a. RemoveAll_alg 8 (scripted refused_script) ''/d'' []
        = Some (Some a, refused_calls)
      \<and> wraps (Errorf ''DirEntry callback failed: ''
                 (Errorf ''failed to remove file /d/a: '' denied)) a"
    using RemoveAll_follows_algorithm [of 8 "scripted refused_script" "''/d''" "[]", THEN conjunct1]
    by (simp add: RemoveAll_refused_run)
  have g: "on_statx (scripted gone_script) [] (M_Statx ''/gone'') = Inl not_found
      \<and> Is_ceph_ErrNotExist not_found"
    by code_simp
  have 3: "Fs_RemoveAll 1 (scripted gone_script) ''/gone'' [] = Some (None, [M_Statx ''/gone''])"
    using RemoveAll_follows_algorithm
      [where m = "scripted gone_script" and tr = "[]" and path = "''/gone''" and err = not_found
         and fuel = 0, THEN conjunct2, THEN conjunct1] g
    by simp
  have f: "on_statx (scripted file_script) [] (M_Statx ''/f'') = Inr regStat
      \<and> stx_Mode regStat AND S_IFMT \<noteq> S_IFDIR"
    and fu: "on_err (scripted file_script) [M_Statx ''/f''] (M_Unlink ''/f'') = None"
    by code_simp+
  have 4: "Fs_RemoveAll 1 (scripted file_script) ''/f'' []
      = Some (None, [M_Statx ''/f'', M_Unlink ''/f''])"
    using RemoveAll_follows_algorithm
      [where m = "scripted file_script" and tr = "[]" and path = "''/f''" and stat = regStat
         and fuel = 0, THEN conjunct2, THEN conjunct2] f fu
    by auto
  have r: "on_statx (scripted refused_file_script) [] (M_Statx ''/f'') = Inr regStat
      \<and> stx_Mode regStat AND S_IFMT \<noteq> S_IFDIR"
    and ru: "on_err (scripted refused_file_script) [M_Statx ''/f''] (M_Unlink ''/f'')
      = Some denied"
    and rc: "convertErr (Some denied) = Some denied"
    by code_simp+
  have 5: "\<exists>c. Fs_RemoveAll 1 (scripted refused_file_script) ''/f'' []
              = Some (Some c, [M_Statx ''/f'', M_Unlink ''/f''])
          \<and> wraps c denied"
    using RemoveAll_follows_algorithm
      [where m = "scripted refused_file_script" and tr = "[]" and path = "''/f''"
         and stat = regStat and fuel = 0, THEN conjunct2, THEN conjunct2] r ru rc
    by auto
  show ?thesis using 1 2 3 4 5 by blast
qed

section \<open>Bounded enumeration\<close>

lemma Base_join:
  assumes "entry_name name"
  shows "Base (path @ ''/'' @ name) = name"
proof -
  have ne: "name \<noteq> []" and ns: "CHR ''/'' \<notin> set name"
    using assms by (auto simp: entry_name_def)
  obtain c cs where r: "rev name = c # cs" using ne by (cases "rev name") auto
  have c: "c \<noteq> CHR ''/''" using ns r by (metis list.set_intros(1) set_rev)
  have all: "\<forall>x \<in> set (rev name). x \<noteq> CHR ''/''" using ns by auto
  have d: "dropWhile (\<lambda>c. c = CHR ''/'') (rev (path @ ''/'' @ name)) = rev (path @ ''/'' @ name)"
    using r c by simp
  have t: "takeWhile (\<lambda>c. c \<noteq> CHR ''/'') (rev (path @ ''/'' @ name)) = rev name"
    using all by (simp add: takeWhile_append2 del: set_rev)
  show ?thesis unfolding Base_def Let_def d rev_rev_ident t using ne by simp
qed

lemma FileInfo_Name_infoOf:
  "entry_name (de_Name de) \<Longrightarrow> FileInfo_Name (infoOf path de) = de_Name de"
  using Base_join [of "de_Name de" path] by (simp add: FileInfo_Name_def infoOf_def)

lemma after_reads_Suc:
  "after_reads dir (snd (cdir_ReadDirPlus m dir tr)) n = after_reads dir tr (Suc n)"
  by (simp add: after_reads_def cdir_ReadDirPlus_def invoke_def)

lemma after_reads_0: "after_reads dir tr 0 = tr"
  by (simp add: after_reads_def)

text \<open>
  What the loop of \<open>Readdir\<close> returns on a stream of entries that ends: the entries
  listed so far, then the first \<open>count\<close> listed entries of the stream (all of them
  when \<open>count\<close> is negative), and the end-of-stream error when a positive \<open>count\<close> is
  more than the stream has.
\<close>

lemma Readdir_loop_stream:
  assumes "reads m dir tr des"
    and "fst (cdir_ReadDirPlus m dir (after_reads dir tr (length des))) = Inr None"
    and "length des < fuel"
  shows "map_option fst (Readdir_loop fuel m path dir count list tr) =
     Some (list @ map (infoOf path)
                    (if count < 0 then listed des else take (nat count) (listed des)),
           if int (length (listed des)) < count then Some IoEOF else None)"
  using assms
proof (induction des arbitrary: fuel count list tr)
  case Nil
  then obtain k where k: "fuel = Suc k" by (cases fuel) auto
  obtain r tr1 where rd: "cdir_ReadDirPlus m dir tr = (r, tr1)" by fastforce
  then have "r = Inr None" using Nil.prems(2) by (simp add: after_reads_0)
  then show ?case using k rd by (simp add: listed_def)
next
  case (Cons de des)
  then obtain k where k: "fuel = Suc k" and lk: "length des < k" by (cases fuel) auto
  obtain r tr1 where rd: "cdir_ReadDirPlus m dir tr = (r, tr1)" by fastforce
  have r: "r = Inr (Some de)" and rest: "reads m dir tr1 des"
    using Cons.prems(1) rd by simp_all
  have fin: "fst (cdir_ReadDirPlus m dir (after_reads dir tr1 (length des))) = Inr None"
    using Cons.prems(2) after_reads_Suc [of dir m tr "length des"] rd by simp
  show ?case
  proof (cases "count = 0")
    case True
    then show ?thesis using k by simp
  next
    case False
    show ?thesis
    proof (cases "pseudo (de_Name de)")
      case True
      have step: "Readdir_loop fuel m path dir count list tr
          = Readdir_loop k m path dir count list tr1"
        using k rd r False True by (auto simp add: pseudo_def)
      have l: "listed (de # des) = listed des" using True by (simp add: listed_def)
      show ?thesis unfolding step l by (rule Cons.IH [OF rest fin lk])
    next
      case real: False
      let ?c = "if count > 0 then count - 1 else count"
      have step: "Readdir_loop fuel m path dir count list tr
          = Readdir_loop k m path dir ?c (list @ [infoOf path de]) tr1"
        using k rd r False real by (simp add: pseudo_def infoOf_def Let_def)
      have l: "listed (de # des) = de # listed des" using real by (simp add: listed_def)
      show ?thesis
      proof (cases "count > 0")
        case True
        then have "take (nat count) (de # listed des) = de # take (nat (count - 1)) (listed des)"
          by (simp add: take_Cons' nat_diff_distrib)
        then show ?thesis
          using step Cons.IH [OF rest fin lk, of "count - 1" "list @ [infoOf path de]"] True l
          by auto
      next
        case neg: False
        then have "count < 0" using False by simp
        then show ?thesis
          using step Cons.IH [OF rest fin lk, of count "list @ [infoOf path de]"] l
          by auto
      qed
    qed
  qed
qed

text \<open>
  The handle with a directory capability (the first variant of the package), on a
  directory whose stream holds \<open>M\<close> entries besides the pseudo-entries: \<open>Readdir k\<close>
  with \<open>0 < k \<le> M\<close> returns the first \<open>k\<close> of them and no error, \<open>Readdir\<close> with a
  count of zero or less returns all \<open>M\<close>; the pseudo-entries are never turned into
  metadata records and never counted.
\<close>

lemma File_Readdir_bound:
  assumes "f_dir f = Some dir" and "reads m dir tr des"
    and "fst (cdir_ReadDirPlus m dir (after_reads dir tr (length des))) = Inr None"
    and "length des < fuel"
  shows "0 < k \<and> k \<le> int (length (listed des)) \<longrightarrow>
           (\<exists>infos. map_option fst (File_Readdir fuel m f k tr) = Some (infos, None)
              \<and> length infos = nat k
              \<and> infos = map (infoOf (f_path f)) (take (nat k) (listed des)))"
    and "k \<le> 0 \<longrightarrow>
           map_option fst (File_Readdir fuel m f k tr)
             = Some (map (infoOf (f_path f)) (listed des), None)"
    and "\<forall>de \<in> set (listed des). \<not> pseudo (de_Name de)"
    and "\<forall>de \<in> set (listed des). entry_name (de_Name de) \<longrightarrow>
           FileInfo_Name (infoOf (f_path f) de) = de_Name de"
proof -
  show "0 < k \<and> k \<le> int (length (listed des)) \<longrightarrow>
           (\<exists>infos. map_option fst (File_Readdir fuel m f k tr) = Some (infos, None)
              \<and> length infos = nat k
              \<and> infos = map (infoOf (f_path f)) (take (nat k) (listed des)))"
    using Readdir_loop_stream [OF assms(2,3,4), of "f_path f" k "[]"] assms(1)
    by (auto simp add: File_Readdir_def)
  show "k \<le> 0 \<longrightarrow>
           map_option fst (File_Readdir fuel m f k tr)
             = Some (map (infoOf (f_path f)) (listed des), None)"
    using Readdir_loop_stream [OF assms(2,3,4), of "f_path f" k "[]"]
      Readdir_loop_stream [OF assms(2,3,4), of "f_path f" "- 1" "[]"] assms(1)
    by (auto simp add: File_Readdir_def)
  show "\<forall>de \<in> set (listed des). \<not> pseudo (de_Name de)"
    by (simp add: listed_def)
  show "\<forall>de \<in> set (listed des). entry_name (de_Name de) \<longrightarrow>
           FileInfo_Name (infoOf (f_path f) de) = de_Name de"
    by (simp add: FileInfo_Name_infoOf)
qed

lemma EFile_Readdir_callback:
  "EFile_Readdir fuel m f count tr = listFromDir fuel m f count (statx_callback m f) tr"
  by (simp add: EFile_Readdir_def statx_callback_def)

lemma EFile_Readdirnames_callback:
  "EFile_Readdirnames fuel m f n tr = listFromDir fuel m f n name_callback tr"
  by (simp add: EFile_Readdirnames_def name_callback_def)

text \<open>
  C1, on the handle that embeds the remote file. \<open>listFromDir\<close> hands the
  pseudo-entries to the transform and counts them: on the directory \<open>/d\<close> with the one
  entry \<open>a\<close>, \<open>Readdir 1\<close> returns the record of \<open>/d/.\<close>, whose name is \<open>.\<close>, and
  \<open>Readdir 0\<close> returns three records, named \<open>.\<close>, \<open>..\<close> and \<open>a\<close>. On the same
  directory \<open>Readdir 1\<close> of the handle with a directory capability returns the record
  of \<open>a\<close>.
\<close>

theorem listFromDir_lists_pseudo_entries:
  "map_option fst (EFile_Readdir 4 (scripted first_page_script) embedded_d 1 [])
     = Some ([\<lparr>info_stat = dirStat, info_path = ''/d/.''\<rparr>], None)
   \<and> FileInfo_Name \<lparr>info_stat = dirStat, info_path = ''/d/.''\<rparr> = ''.''
   \<and> map_option (\<lambda>r. map FileInfo_Name (fst (fst r)))
        (EFile_Readdir 6 (scripted whole_dir_script) embedded_d 0 [])
     = Some [''.'', ''..'', ''a'']
   \<and> map_option (\<lambda>r. map FileInfo_Name (fst (fst r)))
        (File_Readdir 6 (scripted plus_script) handle_d 1 [])
     = Some [''a'']"
  by code_simp

section \<open>Errors during the enumeration\<close>

lemma Readdir_loop_failing:
  assumes "reads m dir tr des"
    and "fst (cdir_ReadDirPlus m dir (after_reads dir tr (length des))) = Inl err"
    and "length des < fuel"
    and "count < 0 \<or> int (length (listed des)) < count"
  shows "Readdir_loop fuel m path dir count list tr =
     Some ((list @ map (infoOf path) (listed des),
            Some (Errorf ''cephfs: failed to list file: '' err)),
           after_reads dir tr (Suc (length des)))"
  using assms
proof (induction des arbitrary: fuel count list tr)
  case Nil
  then obtain k where k: "fuel = Suc k" by (cases fuel) auto
  obtain r tr1 where rd: "cdir_ReadDirPlus m dir tr = (r, tr1)" by fastforce
  then have r: "r = Inl err" using Nil.prems(2) by (simp add: after_reads_0)
  have "tr1 = after_reads dir tr (Suc 0)"
    using rd by (simp add: after_reads_def cdir_ReadDirPlus_def invoke_def)
  moreover have "count \<noteq> 0" using Nil.prems(4) by (auto simp: listed_def)
  ultimately show ?case using k rd r by (simp add: listed_def)
next
  case (Cons de des)
  then obtain k where k: "fuel = Suc k" and lk: "length des < k" by (cases fuel) auto
  obtain r tr1 where rd: "cdir_ReadDirPlus m dir tr = (r, tr1)" by fastforce
  have r: "r = Inr (Some de)" and rest: "reads m dir tr1 des"
    using Cons.prems(1) rd by simp_all
  have tr1: "\<And>n. after_reads dir tr1 n = after_reads dir tr (Suc n)"
    using after_reads_Suc [of dir m tr] rd by simp
  have fin: "fst (cdir_ReadDirPlus m dir (after_reads dir tr1 (length des))) = Inl err"
    using Cons.prems(2) tr1 by simp
  have nz: "count \<noteq> 0" using Cons.prems(4) by auto
  show ?case
  proof (cases "pseudo (de_Name de)")
    case True
    have step: "Readdir_loop fuel m path dir count list tr
        = Readdir_loop k m path dir count list tr1"
      using k rd r nz True by (auto simp add: pseudo_def)
    have l: "listed (de # des) = listed des" using True by (simp add: listed_def)
    have c: "count < 0 \<or> int (length (listed des)) < count" using Cons.prems(4) l by simp
    show ?thesis unfolding step l using Cons.IH [OF rest fin lk c, of list] tr1 by simp
  next
    case real: False
    let ?c = "if count > 0 then count - 1 else count"
    have step: "Readdir_loop fuel m path dir count list tr
        = Readdir_loop k m path dir ?c (list @ [infoOf path de]) tr1"
      using k rd r nz real by (simp add: pseudo_def infoOf_def Let_def)
    have l: "listed (de # des) = de # listed des" using real by (simp add: listed_def)
    have c: "?c < 0 \<or> int (length (listed des)) < ?c" using Cons.prems(4) l by auto
    show ?thesis unfolding step l
      using Cons.IH [OF rest fin lk c, of "list @ [infoOf path de]"] tr1 by simp
  qed
qed

text \<open>
  The loop of \<open>listFromDir\<close> after a run of reads and transforms that succeed: it is
  where it would be had it started there with the items appended and the count taken
  down.
\<close>

lemma listFromDir_loop_advance:
  assumes "transforms m dir callback tr ps = Some tr'"
    and "length ps < fuel"
    and "count < 0 \<or> int (length ps) < count"
  shows "listFromDir_loop fuel m dir count callback list tr =
     listFromDir_loop (fuel - length ps) m dir
       (if count < 0 then count else count - int (length ps)) callback
       (list @ map snd ps) tr'"
  using assms
proof (induction ps arbitrary: fuel count list tr)
  case Nil
  then show ?case by simp
next
  case (Cons p ps)
  then obtain k where k: "fuel = Suc k" and lk: "length ps < k" by (cases fuel) auto
  obtain r tr1 where rd: "cdir_ReadDir m dir tr = (r, tr1)" by fastforce
  from Cons.prems(1) rd obtain de where r: "r = Inr (Some de)"
    by (cases r) (auto split: option.splits)
  obtain c tr2 where cb: "callback de tr1 = (c, tr2)" by fastforce
  from Cons.prems(1) rd r cb obtain item where c: "c = Inr item"
    by (cases c) auto
  have eqs: "de = fst p" "item = snd p" and rest: "transforms m dir callback tr2 ps = Some tr'"
    using Cons.prems(1) rd r cb c by (auto split: if_splits)
  have nz: "count \<noteq> 0" using Cons.prems(3) by auto
  let ?c = "if count > 0 then count - 1 else count"
  have step: "listFromDir_loop fuel m dir count callback list tr
      = listFromDir_loop k m dir ?c callback (list @ [item]) tr2"
    using k rd r cb c nz by simp
  have cc: "?c < 0 \<or> int (length ps) < ?c" using Cons.prems(3) by auto
  show ?case unfolding step
    using Cons.IH [OF rest lk cc, of "list @ [item]"] k eqs Cons.prems(3)
    by (auto simp add: diff_diff_eq)
qed

lemma listFromDir_loop_read_fails:
  assumes "transforms m dir callback tr ps = Some tr'"
    and "cdir_ReadDir m dir tr' = (Inl err, tr'')"
    and "length ps < fuel"
    and "count < 0 \<or> int (length ps) < count"
  shows "listFromDir_loop fuel m dir count callback list tr =
     Some ((list @ map snd ps, Some (Errorf ''failed cephfs.ReadDir: '' err)), tr'')"
proof -
  obtain k where k: "fuel - length ps = Suc k" using assms(3) by (cases "fuel - length ps") auto
  have nz: "(if count < 0 then count else count - int (length ps)) \<noteq> 0" using assms(4) by auto
  show ?thesis
    unfolding listFromDir_loop_advance [OF assms(1,3,4)] k
    using assms(2) nz by simp
qed

lemma listFromDir_loop_callback_fails:
  assumes "transforms m dir callback tr ps = Some tr'"
    and "cdir_ReadDir m dir tr' = (Inr (Some de), tr1)"
    and "callback de tr1 = (Inl err, tr2)"
    and "length ps < fuel"
    and "count < 0 \<or> int (length ps) < count"
  shows "listFromDir_loop fuel m dir count callback list tr =
     Some ((list @ map snd ps, Some (Errorf ''listFromDir callback failed: '' err)), tr2)"
proof -
  obtain k where k: "fuel - length ps = Suc k" using assms(4) by (cases "fuel - length ps") auto
  have nz: "(if count < 0 then count else count - int (length ps)) \<noteq> 0" using assms(5) by auto
  show ?thesis
    unfolding listFromDir_loop_advance [OF assms(1,4,5)] k
    using assms(2,3) nz by simp
qed

lemma cdir_Close_trace: "snd (cdir_Close m dir tr) = tr @ [D_Close dir]"
  by (simp add: cdir_Close_def invoke_def)

lemma listFromDir_enter:
  assumes "EFile_Stat m efile tr0 = (Inr stat, tr1)" "FileInfo_IsDir stat"
    and "mount_OpenDir m (ef_path efile) tr1 = (Inr dir, tr)"
    and "listFromDir_loop fuel m dir (if count = 0 then - 1 else count) callback [] tr
           = Some (res, tr3)"
  shows "listFromDir fuel m efile count callback tr0 = Some (res, tr3 @ [D_Close dir])"
  using assms by (simp add: listFromDir_def cdir_Close_trace)

text \<open>
  C8. When the read after the entries \<open>des\<close> fails with \<open>err\<close>, and the bound is not
  reached before, \<open>Readdir\<close> returns the records of the entries listed so far together
  with \<open>err\<close> wrapped, and its last remote call is the read that failed. The same for
  \<open>listFromDir\<close>, whose run so far is the entries read and the items its transform made
  of them: when the next read fails, and when the transform fails on the next entry,
  it returns the items so far together with the wrapped error, and after the failing
  call only the deferred close of the directory is made.
\<close>

theorem enumeration_error_keeps_partial_list:
  "(f_dir f = Some dir \<and> reads m dir tr des
      \<and> fst (cdir_ReadDirPlus m dir (after_reads dir tr (length des))) = Inl err
      \<and> length des < fuel \<and> (count \<le> 0 \<or> int (length (listed des)) < count)
    \<longrightarrow> File_Readdir fuel m f count tr =
          Some ((map (infoOf (f_path f)) (listed des),
                 Some (Errorf ''cephfs: failed to list file: '' err)),
                after_reads dir tr (Suc (length des))))
   \<and> (EFile_Stat m efile tr0 = (Inr stat, tr1) \<and> FileInfo_IsDir stat
      \<and> mount_OpenDir m (ef_path efile) tr1 = (Inr dir, tr)
      \<and> transforms m dir callback tr ps = Some tr'
      \<and> cdir_ReadDir m dir tr' = (Inl err, tr'')
      \<and> length ps < fuel \<and> (count \<le> 0 \<or> int (length ps) < count)
    \<longrightarrow> listFromDir fuel m efile count callback tr0 =
          Some ((map snd ps, Some (Errorf ''failed cephfs.ReadDir: '' err)),
                tr'' @ [D_Close dir]))
   \<and> (EFile_Stat m efile tr0 = (Inr stat, tr1) \<and> FileInfo_IsDir stat
      \<and> mount_OpenDir m (ef_path efile) tr1 = (Inr dir, tr)
      \<and> transforms m dir callback tr ps = Some tr'
      \<and> cdir_ReadDir m dir tr' = (Inr (Some de), tr2)
      \<and> callback de tr2 = (Inl err, tr3)
      \<and> length ps < fuel \<and> (count \<le> 0 \<or> int (length ps) < count)
    \<longrightarrow> listFromDir fuel m efile count callback tr0 =
          Some ((map snd ps, Some (Errorf ''listFromDir callback failed: '' err)),
                tr3 @ [D_Close dir]))"
proof (intro conjI impI)
  assume a: "f_dir f = Some dir \<and> reads m dir tr des
      \<and> fst (cdir_ReadDirPlus m dir (after_reads dir tr (length des))) = Inl err
      \<and> length des < fuel \<and> (count \<le> 0 \<or> int (length (listed des)) < count)"
  let ?c = "if count = 0 then - 1 else count"
  have c: "?c < 0 \<or> int (length (listed des)) < ?c" using a by auto
  show "File_Readdir fuel m f count tr =
          Some ((map (infoOf (f_path f)) (listed des),
                 Some (Errorf ''cephfs: failed to list file: '' err)),
                after_reads dir tr (Suc (length des)))"
    using a Readdir_loop_failing [of m dir tr des err fuel ?c "f_path f" "[]", OF _ _ _ c]
    by (simp add: File_Readdir_def)
next
  assume a: "EFile_Stat m efile tr0 = (Inr stat, tr1) \<and> FileInfo_IsDir stat
      \<and> mount_OpenDir m (ef_path efile) tr1 = (Inr dir, tr)
      \<and> transforms m dir callback tr ps = Some tr'
      \<and> cdir_ReadDir m dir tr' = (Inl err, tr'')
      \<and> length ps < fuel \<and> (count \<le> 0 \<or> int (length ps) < count)"
  let ?c = "if count = 0 then - 1 else count"
  have c: "?c < 0 \<or> int (length ps) < ?c" using a by auto
  have "listFromDir_loop fuel m dir ?c callback [] tr
      = Some (([] @ map snd ps, Some (Errorf ''failed cephfs.ReadDir: '' err)), tr'')"
    using a by (intro listFromDir_loop_read_fails [OF _ _ _ c]) auto
  then show "listFromDir fuel m efile count callback tr0 =
          Some ((map snd ps, Some (Errorf ''failed cephfs.ReadDir: '' err)),
                tr'' @ [D_Close dir])"
    using a listFromDir_enter [of m efile tr0 stat tr1 dir tr fuel count callback] by simp
next
  assume a: "EFile_Stat m efile tr0 = (Inr stat, tr1) \<and> FileInfo_IsDir stat
      \<and> mount_OpenDir m (ef_path efile) tr1 = (Inr dir, tr)
      \<and> transforms m dir callback tr ps = Some tr'
      \<and> cdir_ReadDir m dir tr' = (Inr (Some de), tr2)
      \<and> callback de tr2 = (Inl err, tr3)
      \<and> length ps < fuel \<and> (count \<le> 0 \<or> int (length ps) < count)"
  let ?c = "if count = 0 then - 1 else count"
  have c: "?c < 0 \<or> int (length ps) < ?c" using a by auto
  have "listFromDir_loop fuel m dir ?c callback [] tr
      = Some (([] @ map snd ps, Some (Errorf ''listFromDir callback failed: '' err)), tr3)"
    using a by (intro listFromDir_loop_callback_fails [OF _ _ _ _ c]) auto
  then show "listFromDir fuel m efile count callback tr0 =
          Some ((map snd ps, Some (Errorf ''listFromDir callback failed: '' err)),
                tr3 @ [D_Close dir])"
    using a listFromDir_enter [of m efile tr0 stat tr1 dir tr fuel count callback] by simp
qed

text \<open>The three failing runs on the directory \<open>/d\<close>.\<close>

theorem enumeration_error_keeps_partial_list_witness:
  "File_Readdir 4 (scripted failing_plus_script) handle_d 0 [] =
     Some (([\<lparr>info_stat = regStat, info_path = ''/d/a''\<rparr>],
            Some (Errorf ''cephfs: failed to list file: '' denied)),
           [D_ReadDirPlus 1, D_ReadDirPlus 1, D_ReadDirPlus 1])
   \<and> EFile_Readdirnames 4 (scripted failing_read_script) embedded_d 0 [] =
     Some (([''a''], Some (Errorf ''failed cephfs.ReadDir: '' denied)),
           [F_Fstatx 3, M_OpenDir ''/d'', D_ReadDir 1, D_ReadDir 1, D_Close 1])
   \<and> EFile_Readdir 4 (scripted failing_stat_script) embedded_d 0 [] =
     Some (([\<lparr>info_stat = regStat, info_path = ''/d/a''\<rparr>],
            Some (Errorf ''listFromDir callback failed: ''
                    (Errorf ''failed to statx file /d/b: '' denied))),
           [F_Fstatx 3, M_OpenDir ''/d'', D_ReadDir 1, M_Statx ''/d/a'', D_ReadDir 1,
            M_Statx ''/d/b'', D_Close 1])"
proof -
  let ?des = "[entryPlus ''.'' DTypeDir dirStat, entryPlus ''a'' DTypeReg regStat]"
  have h1: "f_dir handle_d = Some 1 \<and> reads (scripted failing_plus_script) 1 [] ?des
      \<and> fst (cdir_ReadDirPlus (scripted failing_plus_script) 1 (after_reads 1 [] (length ?des)))
          = Inl denied
      \<and> length ?des < 4 \<and> ((0::int) \<le> 0 \<or> int (length (listed ?des)) < 0)"
    by code_simp
  have w1: "File_Readdir 4 (scripted failing_plus_script) handle_d 0 [] =
      Some ((map (infoOf (f_path handle_d)) (listed ?des),
             Some (Errorf ''cephfs: failed to list file: '' denied)),
            after_reads 1 [] (Suc (length ?des)))"
    using enumeration_error_keeps_partial_list
      [where f = handle_d and dir = 1 and m = "scripted failing_plus_script" and tr = "[]"
         and des = ?des and err = denied and fuel = 4 and count = 0, THEN conjunct1] h1
    by blast
  let ?ps = "[(entry ''a'' DTypeReg, ''a'')]"
  let ?t2 = "[F_Fstatx 3, M_OpenDir ''/d'']"
  have h2: "EFile_Stat (scripted failing_read_script) embedded_d []
        = (Inr \<lparr>info_stat = dirStat, info_path = ''/d''\<rparr>, [F_Fstatx 3])
      \<and> FileInfo_IsDir \<lparr>info_stat = dirStat, info_path = ''/d''\<rparr>
      \<and> mount_OpenDir (scripted failing_read_script) (ef_path embedded_d) [F_Fstatx 3]
          = (Inr 1, ?t2)
      \<and> transforms (scripted failing_read_script) 1 name_callback ?t2 ?ps
          = Some (?t2 @ [D_ReadDir 1])
      \<and> cdir_ReadDir (scripted failing_read_script) 1 (?t2 @ [D_ReadDir 1])
          = (Inl denied, ?t2 @ [D_ReadDir 1, D_ReadDir 1])
      \<and> length ?ps < 4 \<and> ((0::int) \<le> 0 \<or> int (length ?ps) < 0)"
    by code_simp
  have w2: "listFromDir 4 (scripted failing_read_script) embedded_d 0 name_callback [] =
      Some ((map snd ?ps, Some (Errorf ''failed cephfs.ReadDir: '' denied)),
            (?t2 @ [D_ReadDir 1, D_ReadDir 1]) @ [D_Close 1])"
    using enumeration_error_keeps_partial_list
      [where m = "scripted failing_read_script" and efile = embedded_d and ?tr0.0 = "[]"
         and stat = "\<lparr>info_stat = dirStat, info_path = ''/d''\<rparr>" and ?tr1.0 = "[F_Fstatx 3]"
         and dir = 1 and tr = ?t2 and callback = name_callback and ps = ?ps
         and tr' = "?t2 @ [D_ReadDir 1]" and err = denied
         and tr'' = "?t2 @ [D_ReadDir 1, D_ReadDir 1]" and fuel = 4 and count = 0,
         THEN conjunct2, THEN conjunct1] h2
    by blast
  let ?cb = "statx_callback (scripted failing_stat_script) embedded_d"
  let ?qs = "[(entry ''a'' DTypeReg, \<lparr>info_stat = regStat, info_path = ''/d/a''\<rparr>)]"
  let ?t3 = "[F_Fstatx 3, M_OpenDir ''/d'', D_ReadDir 1, M_Statx ''/d/a'']"
  have h3: "EFile_Stat (scripted failing_stat_script) embedded_d []
        = (Inr \<lparr>info_stat = dirStat, info_path = ''/d''\<rparr>, [F_Fstatx 3])
      \<and> FileInfo_IsDir \<lparr>info_stat = dirStat, info_path = ''/d''\<rparr>
      \<and> mount_OpenDir (scripted failing_stat_script) (ef_path embedded_d) [F_Fstatx 3]
          = (Inr 1, ?t2)
      \<and> transforms (scripted failing_stat_script) 1 ?cb ?t2 ?qs = Some ?t3
      \<and> cdir_ReadDir (scripted failing_stat_script) 1 ?t3
          = (Inr (Some (entry ''b'' DTypeReg)), ?t3 @ [D_ReadDir 1])
      \<and> ?cb (entry ''b'' DTypeReg) (?t3 @ [D_ReadDir 1])
          = (Inl (Errorf ''failed to statx file /d/b: '' denied),
             ?t3 @ [D_ReadDir 1, M_Statx ''/d/b''])
      \<and> length ?qs < 4 \<and> ((0::int) \<le> 0 \<or> int (length ?qs) < 0)"
    by code_simp
  have w3: "listFromDir 4 (scripted failing_stat_script) embedded_d 0 ?cb [] =
      Some ((map snd ?qs,
             Some (Errorf ''listFromDir callback failed: ''
                     (Errorf ''failed to statx file /d/b: '' denied))),
            (?t3 @ [D_ReadDir 1, M_Statx ''/d/b'']) @ [D_Close 1])"
    using enumeration_error_keeps_partial_list
      [where m = "scripted failing_stat_script" and efile = embedded_d and ?tr0.0 = "[]"
         and stat = "\<lparr>info_stat = dirStat, info_path = ''/d''\<rparr>" and ?tr1.0 = "[F_Fstatx 3]"
         and dir = 1 and tr = ?t2 and callback = ?cb and ps = ?qs
         and tr' = ?t3 and de = "entry ''b'' DTypeReg" and ?tr2.0 = "?t3 @ [D_ReadDir 1]"
         and err = "Errorf ''failed to statx file /d/b: '' denied"
         and ?tr3.0 = "?t3 @ [D_ReadDir 1, M_Statx ''/d/b'']" and fuel = 4 and count = 0,
         THEN conjunct2, THEN conjunct2] h3
    by blast
  show ?thesis
    using w1 w2 w3
    by (simp add: EFile_Readdir_callback EFile_Readdirnames_callback listed_def pseudo_def
        infoOf_def entryPlus_def handle_d_def after_reads_def)
qed

section \<open>Fuel\<close>

text \<open>
  A run that returns within some fuel returns the same with any more fuel: the fuel
  bounds the length of a run and has no part in its result.
\<close>

lemma Readdir_loop_more_fuel:
  "Readdir_loop fuel m path dir count list tr = Some r \<Longrightarrow>
     Readdir_loop (fuel + k) m path dir count list tr = Some r"
proof (induction fuel arbitrary: count list tr)
  case 0
  then show ?case by simp
next
  case (Suc fuel)
  obtain x tr1 where rd: "cdir_ReadDirPlus m dir tr = (x, tr1)" by fastforce
  show ?case
  proof (cases "count = 0")
    case True
    then show ?thesis using Suc.prems by simp
  next
    case False
    show ?thesis
    proof (cases x)
      case (Inl err)
      then show ?thesis using Suc.prems rd False by simp
    next
      case (Inr eo)
      show ?thesis
      proof (cases eo)
        case None
        then show ?thesis using Suc.prems rd False Inr by simp
      next
        case (Some de)
        then show ?thesis using Suc.prems rd False Inr Suc.IH
          by (auto simp add: Let_def split: if_splits)
      qed
    qed
  qed
qed

lemma listFromDir_loop_more_fuel:
  "listFromDir_loop fuel m dir count callback list tr = Some r \<Longrightarrow>
     listFromDir_loop (fuel + k) m dir count callback list tr = Some r"
proof (induction fuel arbitrary: count list tr)
  case 0
  then show ?case by simp
next
  case (Suc fuel)
  obtain x tr1 where rd: "cdir_ReadDir m dir tr = (x, tr1)" by fastforce
  show ?case
  proof (cases "count = 0")
    case True
    then show ?thesis using Suc.prems by simp
  next
    case False
    show ?thesis
    proof (cases x)
      case (Inl err)
      then show ?thesis using Suc.prems rd False by simp
    next
      case (Inr eo)
      show ?thesis
      proof (cases eo)
        case None
        then show ?thesis using Suc.prems rd False Inr by simp
      next
        case (Some de)
        obtain c tr2 where cb: "callback de tr1 = (c, tr2)" by fastforce
        show ?thesis using Suc.prems rd False Inr Some cb Suc.IH
          by (cases c) (auto split: if_splits)
      qed
    qed
  qed
qed

lemma forDirItem_more_fuel:
  assumes cb: "\<And>de t r. cb1 de t = Some r \<Longrightarrow> cb2 de t = Some r"
  shows "forDirItem fuel m dir cb1 tr = Some r \<Longrightarrow> forDirItem (fuel + k) m dir cb2 tr = Some r"
proof (induction fuel arbitrary: tr)
  case 0
  then show ?case by simp
next
  case (Suc fuel)
  obtain x tr1 where rd: "cdir_ReadDir m dir tr = (x, tr1)" by fastforce
  show ?case
  proof (cases x)
    case (Inl err)
    then show ?thesis using Suc.prems rd by simp
  next
    case (Inr eo)
    show ?thesis
    proof (cases eo)
      case None
      then show ?thesis using Suc.prems rd Inr by simp
    next
      case (Some de)
      show ?thesis
      proof (cases "cb1 de tr1" rule: callback_cases)
        case none
        then show ?thesis using Suc.prems rd Inr Some by simp
      next
        case (ok tr2)
        then show ?thesis using Suc.prems rd Inr Some cb [OF ok] Suc.IH [of tr2] by simp
      next
        case (err e tr2)
        then show ?thesis using Suc.prems rd Inr Some cb [OF err] by simp
      qed
    qed
  qed
qed

lemma RemoveAll_callback_mono:
  assumes "\<And>p t r. R1 p t = Some r \<Longrightarrow> R2 p t = Some r"
    and "RemoveAll_callback m path R1 de t = Some r"
  shows "RemoveAll_callback m path R2 de t = Some r"
proof (cases "\<not> pseudo (de_Name de) \<and> de_DType de = DTypeDir")
  case True
  then show ?thesis using assms callback_dir [of de m path] by simp
next
  case False
  then show ?thesis using assms(2)
    by (auto simp add: RemoveAll_callback_def pseudo_def Let_def)
qed

lemma Fs_RemoveAll_more_fuel:
  "Fs_RemoveAll fuel m path tr = Some r \<Longrightarrow> Fs_RemoveAll (fuel + k) m path tr = Some r"
proof (induction fuel arbitrary: path tr r)
  case 0
  then show ?case by simp
next
  case (Suc fuel)
  have loop: "\<And>dir t r'. forDirItem fuel m dir (RemoveAll_callback m path (Fs_RemoveAll fuel m)) t = Some r'
      \<Longrightarrow> forDirItem (fuel + k) m dir (RemoveAll_callback m path (Fs_RemoveAll (fuel + k) m)) t = Some r'"
  proof -
    fix dir t r'
    assume a: "forDirItem fuel m dir (RemoveAll_callback m path (Fs_RemoveAll fuel m)) t = Some r'"
    have mono: "\<And>de t r. RemoveAll_callback m path (Fs_RemoveAll fuel m) de t = Some r
        \<Longrightarrow> RemoveAll_callback m path (Fs_RemoveAll (fuel + k) m) de t = Some r"
      by (rule RemoveAll_callback_mono [where ?R1.0 = "Fs_RemoveAll fuel m"]) (rule Suc.IH)
    show "forDirItem (fuel + k) m dir (RemoveAll_callback m path (Fs_RemoveAll (fuel + k) m)) t = Some r'"
      using forDirItem_more_fuel [of "RemoveAll_callback m path (Fs_RemoveAll fuel m)"
          "RemoveAll_callback m path (Fs_RemoveAll (fuel + k) m)" fuel m dir t r' k] mono a
      by blast
  qed
  obtain x tr1 where st: "Fs_Stat m path tr = (x, tr1)" by fastforce
  show ?case
  proof (cases x)
    case (Inl err)
    then show ?thesis using Suc.prems st by (simp add: Fs_RemoveAll_Suc)
  next
    case (Inr stat)
    show ?thesis
    proof (cases "FileInfo_IsDir stat")
      case False
      then show ?thesis using Suc.prems st Inr by (simp add: Fs_RemoveAll_Suc)
    next
      case True
      obtain d tr2 where od: "mount_OpenDir m path tr1 = (d, tr2)" by fastforce
      show ?thesis
      proof (cases d)
        case (Inl err)
        then show ?thesis using Suc.prems st Inr True od by (simp add: Fs_RemoveAll_Suc)
      next
        case dir: (Inr dir)
        show ?thesis
        proof (cases "forDirItem fuel m dir (RemoveAll_callback m path (Fs_RemoveAll fuel m)) tr2"
            rule: callback_cases)
          case none
          then show ?thesis using Suc.prems st Inr True od dir by (simp add: Fs_RemoveAll_Suc)
        next
          case (ok tr3)
          then show ?thesis using Suc.prems st Inr True od dir loop [OF ok]
            by (simp add: Fs_RemoveAll_Suc)
        next
          case (err e tr3)
          then show ?thesis using Suc.prems st Inr True od dir loop [OF err]
            by (simp add: Fs_RemoveAll_Suc)
        qed
      qed
    qed
  qed
qed

end
